theory Spec2Isabelle
  imports Complex_Main
begin

section \<open>Rule-based subgenre classification (phase3/src/ml\_subgenre\_classifier.py)\<close>

text \<open>
  Python floats are modelled as real numbers, dictionaries whose iteration order is used
  as association lists (insertion order), the audio-feature dictionary as a partial map.
  A rule profile maps a feature name to its declared range \<open>(min, max)\<close>.
\<close>

type_synonym audio_features = "string \<rightharpoonup> real"
type_synonym rule_profile = "(string \<times> real \<times> real) list"
type_synonym rule_table = "(string \<times> (string \<times> rule_profile) list) list"

text \<open>\<open>RULE_BASED_SUBGENRES\<close> of training/subgenre\_definitions.py.\<close>

definition RULE_BASED_SUBGENRES :: rule_table where
  "RULE_BASED_SUBGENRES =
    [(''jazz'',
       [(''smooth-jazz'', [(''acousticness'', 0.4, 0.8), (''energy'', 0.3, 0.6)]),
        (''bebop'', [(''tempo'', 200, 350), (''instrumentalness'', 0.5, 1.0)]),
        (''jazz-fusion'', [(''energy'', 0.6, 0.9), (''instrumentalness'', 0.3, 0.8)])]),
     (''folk'',
       [(''folk-rock'', [(''energy'', 0.5, 0.8), (''acousticness'', 0.4, 0.7)]),
        (''singer-songwriter'', [(''acousticness'', 0.6, 0.9), (''speechiness'', 0.03, 0.15)]),
        (''americana'', [(''acousticness'', 0.5, 0.8), (''valence'', 0.4, 0.7)])])]"

text \<open>
  One iteration of the loop of \<open>_calculate_profile_match\<close>; the state is
  \<open>(matches, total)\<close> (\<open>total\<close> is written \<open>checked\<close>).
\<close>

fun profile_step :: "audio_features \<Rightarrow> string \<times> real \<times> real \<Rightarrow> real \<times> nat \<Rightarrow> real \<times> nat" where
  "profile_step audio (feature, min_val, max_val) (matches, checked) =
     (case audio feature of
        None \<Rightarrow> (matches, checked)
      | Some v \<Rightarrow>
          (if min_val \<le> v \<and> v \<le> max_val then (matches + 1, checked + 1)
           else if (min_val \<le> v \<and> v \<le> max_val * 1.2) \<or> (min_val * 0.8 \<le> v \<and> v \<le> max_val)
                then (matches + 0.5, checked + 1)
                else (matches, checked + 1)))"

definition calculate_profile_match :: "audio_features \<Rightarrow> rule_profile \<Rightarrow> real" where
  "calculate_profile_match audio profile =
     (case fold (profile_step audio) profile (0, 0) of
        (matches, checked) \<Rightarrow> if checked > 0 then matches / real checked else 0)"

text \<open>One iteration of the loop of \<open>classify_with_rules\<close>; the state is
  \<open>(best_match, best_score)\<close>.\<close>

fun rules_step :: "audio_features \<Rightarrow> string \<times> rule_profile \<Rightarrow> string option \<times> real
    \<Rightarrow> string option \<times> real" where
  "rules_step audio (subgenre, profile) (best_match, best_score) =
     (let score = calculate_profile_match audio profile
      in if score > best_score then (Some subgenre, score) else (best_match, best_score))"

definition classify_with_rules :: "rule_table \<Rightarrow> string \<Rightarrow> audio_features \<Rightarrow> string option \<times> real" where
  "classify_with_rules table primary audio =
     (case map_of table primary of
        None \<Rightarrow> (None, 0)
      | Some subgenre_profiles \<Rightarrow>
          (case fold (rules_step audio) subgenre_profiles (None, 0) of
             (best_match, best_score) \<Rightarrow>
               if best_score \<ge> 0.6 then (best_match, best_score) else (None, best_score)))"

text \<open>
  A loaded model bundle. The fitted polynomial transformer, scaler and classifier are
  opaque pickled objects; together they are one function from the extracted feature row
  to a predicted label with its class probability, \<open>None\<close> when any of them raises.
\<close>

record model_package =
  feature_cols :: "string list"
  predict :: "real list \<Rightarrow> (string \<times> real) option"

definition extract_feature :: "audio_features \<Rightarrow> string \<Rightarrow> real" where
  "extract_feature audio col =
     (let v = (case audio col of None \<Rightarrow> 0 | Some x \<Rightarrow> x)
      in if col = ''tempo'' then (if v > 200 then v / 2 else if v < 100 then v * 2 else v) else v)"

definition classify_with_ml :: "(string \<rightharpoonup> model_package) \<Rightarrow> string \<Rightarrow> audio_features
    \<Rightarrow> string option \<times> real" where
  "classify_with_ml models primary audio =
     (case models primary of
        None \<Rightarrow> (None, 0)
      | Some pkg \<Rightarrow>
          (case predict pkg (map (extract_feature audio) (feature_cols pkg)) of
             None \<Rightarrow> (None, 0)
           | Some (prediction, conf) \<Rightarrow> (Some prediction, conf)))"

text \<open>Python truthiness of an optional string: \<open>None\<close> and the empty string are false.\<close>

fun truthy :: "string option \<Rightarrow> bool" where
  "truthy None = False"
| "truthy (Some s) = (s \<noteq> [])"

record subgenre_result =
  subgenre :: "string option"
  confidence :: real
  res_method :: string
  res_primary_genre :: string

definition classify :: "(string \<rightharpoonup> model_package) \<Rightarrow> rule_table \<Rightarrow> string \<Rightarrow> audio_features
    \<Rightarrow> string \<Rightarrow> subgenre_result" where
  "classify models table primary audio meth =
     (let ml = (if meth \<in> set [''ml'', ''auto''] then classify_with_ml models primary audio
                else (None, 0))
      in if meth \<in> set [''ml'', ''auto''] \<and> truthy (fst ml)
         then \<lparr>subgenre = fst ml, confidence = snd ml, res_method = ''ml'', res_primary_genre = primary\<rparr>
         else
           (let rl = (if meth \<in> set [''rules'', ''auto'']
                      then classify_with_rules table primary audio else (None, 0))
            in if meth \<in> set [''rules'', ''auto''] \<and> truthy (fst rl)
               then \<lparr>subgenre = fst rl, confidence = snd rl, res_method = ''rules'',
                     res_primary_genre = primary\<rparr>
               else \<lparr>subgenre = None, confidence = 0, res_method = ''none'',
                     res_primary_genre = primary\<rparr>))"

text \<open>
  The score as the specification words it: per checked feature, full credit inside the
  declared range, half credit within 20 percent outside it, nothing otherwise; the score
  is credits over features checked.
\<close>

definition spec_credit :: "real \<Rightarrow> real \<Rightarrow> real \<Rightarrow> real" where
  "spec_credit min_val max_val v =
     (if min_val \<le> v \<and> v \<le> max_val then 1
      else if (max_val < v \<and> v - max_val \<le> 0.2 * max_val)
              \<or> (v < min_val \<and> min_val - v \<le> 0.2 * min_val) then 0.5
      else 0)"

definition spec_checked :: "audio_features \<Rightarrow> rule_profile \<Rightarrow> rule_profile" where
  "spec_checked audio profile = filter (\<lambda>(feature, r). audio feature \<noteq> None) profile"

definition spec_credits :: "audio_features \<Rightarrow> rule_profile \<Rightarrow> real" where
  "spec_credits audio profile =
     sum_list (map (\<lambda>(feature, min_val, max_val). spec_credit min_val max_val (the (audio feature)))
                   (spec_checked audio profile))"

text \<open>A declared range is well formed when its minimum does not exceed its maximum.\<close>

definition wf_profile :: "rule_profile \<Rightarrow> bool" where
  "wf_profile profile = list_all (\<lambda>(feature, min_val, max_val). min_val \<le> max_val) profile"


text \<open>The loop state of \<open>_calculate_profile_match\<close> after the whole profile.\<close>

definition profile_loop :: "audio_features \<Rightarrow> rule_profile \<Rightarrow> real \<times> nat" where
  "profile_loop audio profile = fold (profile_step audio) profile (0, 0)"

text \<open>
  The selection as the specification words it: the highest score among the candidates
  (0 when there is none), and the first candidate, in table order, that reaches it.
\<close>

definition spec_best_score :: "audio_features \<Rightarrow> (string \<times> rule_profile) list \<Rightarrow> real" where
  "spec_best_score audio candidates =
     fold max (map (\<lambda>(subgenre, profile). calculate_profile_match audio profile) candidates) 0"

definition spec_best_match :: "audio_features \<Rightarrow> (string \<times> rule_profile) list \<Rightarrow> string option" where
  "spec_best_match audio candidates =
     (if spec_best_score audio candidates > 0
      then map_option fst
             (find (\<lambda>(subgenre, profile).
                      calculate_profile_match audio profile = spec_best_score audio candidates)
                   candidates)
      else None)"

definition spec_score :: "audio_features \<Rightarrow> rule_profile \<Rightarrow> real" where
  "spec_score audio profile =
     (if length (spec_checked audio profile) > 0
      then spec_credits audio profile / real (length (spec_checked audio profile))
      else 0)"

section \<open>Strings\<close>

text \<open>
  Python strings are modelled as lists of 8-bit characters; the model covers ASCII text.
  \<open>is_space\<close> is \<open>str.isspace\<close> on one ASCII character (also what \<open>\s\<close> matches and what
  \<open>strip\<close> removes), \<open>lower\<close> is \<open>str.lower\<close>, \<open>contains s t\<close> is \<open>t in s\<close>.
\<close>

definition is_space :: "char \<Rightarrow> bool" where
  "is_space c = (let n = (of_char c :: nat) in (9 \<le> n \<and> n \<le> 13) \<or> (28 \<le> n \<and> n \<le> 32))"

definition lower_char :: "char \<Rightarrow> char" where
  "lower_char c =
     (let n = (of_char c :: nat)
      in if 65 \<le> n \<and> n \<le> 90
         then (case c of Char b0 b1 b2 b3 b4 b5 b6 b7 \<Rightarrow> Char b0 b1 b2 b3 b4 True b6 b7)
         else c)"

definition lower :: "string \<Rightarrow> string" where
  "lower s = map lower_char s"

definition strip :: "string \<Rightarrow> string" where
  "strip s = rev (dropWhile is_space (rev (dropWhile is_space s)))"

fun starts_with :: "string \<Rightarrow> string \<Rightarrow> bool" where
  "starts_with s [] = True"
| "starts_with [] (p # ps) = False"
| "starts_with (c # cs) (p # ps) = (c = p \<and> starts_with cs ps)"

fun contains :: "string \<Rightarrow> string \<Rightarrow> bool" where
  "contains [] needle = (needle = [])"
| "contains (c # cs) needle = (starts_with (c # cs) needle \<or> contains cs needle)"

section \<open>Regular expressions (Python's re module, as far as the program uses it)\<close>

text \<open>
  The patterns of the program are sequences of single-character atoms with a quantifier,
  groups of alternative literal words, and the anchors \<open>^\<close>, \<open>$\<close> and \<open>\b\<close>. The matcher
  follows the backtracking order of \<open>re\<close>: a greedy quantifier takes as much as it can
  first, a lazy one as little, alternatives are tried left to right, and the first
  successful path is the match.
\<close>

datatype atom =
    Lit char
  | AnyChar
  | Space
  | OneOf "char list"
  | NoneOf "char list"
  | NotWordSpace

datatype quant = Once | Optional | Greedy_Star | Greedy_Plus | Lazy_Star

datatype item =
    Q atom quant
  | Alt "(atom \<times> quant) list list"
  | Bol
  | Eol
  | WordB

definition is_word :: "char \<Rightarrow> bool" where
  "is_word c =
     (let n = (of_char c :: nat)
      in (48 \<le> n \<and> n \<le> 57) \<or> (65 \<le> n \<and> n \<le> 90) \<or> (97 \<le> n \<and> n \<le> 122) \<or> n = 95)"

text \<open>Whether a character matches an atom; \<open>ic\<close> is the flag \<open>re.IGNORECASE\<close>.\<close>

fun atom_ok :: "bool \<Rightarrow> atom \<Rightarrow> char \<Rightarrow> bool" where
  "atom_ok ic (Lit l) c = (if ic then lower_char c = lower_char l else c = l)"
| "atom_ok ic AnyChar c = (c \<noteq> CHR 0x0A)"
| "atom_ok ic Space c = is_space c"
| "atom_ok ic (OneOf cs) c = (if ic then lower_char c \<in> set (map lower_char cs) else c \<in> set cs)"
| "atom_ok ic (NoneOf cs) c = (if ic then lower_char c \<notin> set (map lower_char cs) else c \<notin> set cs)"
| "atom_ok ic NotWordSpace c = (\<not> is_word c \<and> \<not> is_space c)"

fun is_word_opt :: "char option \<Rightarrow> bool" where
  "is_word_opt None = False"
| "is_word_opt (Some c) = is_word c"

fun next_char :: "string \<Rightarrow> char option" where
  "next_char [] = None"
| "next_char (c # cs) = Some c"

fun item_weight :: "item \<Rightarrow> nat" where
  "item_weight (Alt alts) = Suc (sum_list (map (\<lambda>a. Suc (length a)) alts))"
| "item_weight i = 1"

text \<open>
  \<open>rmatch ic prev items s\<close> matches the pattern at the start of \<open>s\<close>, where \<open>prev\<close> is the
  character before \<open>s\<close> in the whole string (\<open>None\<close> at its start). It returns the
  last character consumed so far and the rest of the string after the match.
\<close>

function rmatch :: "bool \<Rightarrow> char option \<Rightarrow> item list \<Rightarrow> string \<Rightarrow> (char option \<times> string) option" where
  "rmatch ic prev [] s = Some (prev, s)"
| "rmatch ic prev (Bol # rest) s = (if prev = None then rmatch ic prev rest s else None)"
| "rmatch ic prev (Eol # rest) s =
     (if s = [] \<or> s = [CHR 0x0A] then rmatch ic prev rest s else None)"
| "rmatch ic prev (WordB # rest) s =
     (if is_word_opt prev \<noteq> is_word_opt (next_char s) then rmatch ic prev rest s else None)"
| "rmatch ic prev (Q a Once # rest) s =
     (case s of
        [] \<Rightarrow> None
      | c # cs \<Rightarrow> if atom_ok ic a c then rmatch ic (Some c) rest cs else None)"
| "rmatch ic prev (Q a Optional # rest) s =
     (case s of
        [] \<Rightarrow> rmatch ic prev rest s
      | c # cs \<Rightarrow>
          if atom_ok ic a c
          then (case rmatch ic (Some c) rest cs of
                  Some r \<Rightarrow> Some r
                | None \<Rightarrow> rmatch ic prev rest s)
          else rmatch ic prev rest s)"
| "rmatch ic prev (Q a Greedy_Star # rest) s =
     (case s of
        [] \<Rightarrow> rmatch ic prev rest s
      | c # cs \<Rightarrow>
          if atom_ok ic a c
          then (case rmatch ic (Some c) (Q a Greedy_Star # rest) cs of
                  Some r \<Rightarrow> Some r
                | None \<Rightarrow> rmatch ic prev rest s)
          else rmatch ic prev rest s)"
| "rmatch ic prev (Q a Greedy_Plus # rest) s =
     (case s of
        [] \<Rightarrow> None
      | c # cs \<Rightarrow> if atom_ok ic a c then rmatch ic (Some c) (Q a Greedy_Star # rest) cs else None)"
| "rmatch ic prev (Q a Lazy_Star # rest) s =
     (case rmatch ic prev rest s of
        Some r \<Rightarrow> Some r
      | None \<Rightarrow>
          (case s of
             [] \<Rightarrow> None
           | c # cs \<Rightarrow> if atom_ok ic a c then rmatch ic (Some c) (Q a Lazy_Star # rest) cs else None))"
| "rmatch ic prev (Alt [] # rest) s = None"
| "rmatch ic prev (Alt (alt # alts) # rest) s =
     (case rmatch ic prev (map (\<lambda>(a, q). Q a q) alt @ rest) s of
        Some r \<Rightarrow> Some r
      | None \<Rightarrow> rmatch ic prev (Alt alts # rest) s)"
  by pat_completeness auto
termination
  by (relation "measures [\<lambda>(ic, prev, items, s). length s,
                          \<lambda>(ic, prev, items, s). sum_list (map item_weight items)]")
     (auto simp: comp_def case_prod_unfold sum_list_triv)

text \<open>
  \<open>re.sub(pattern, repl, s)\<close>: scan from the left, replace each match, continue after
  it. No pattern of the program matches the empty string; on an empty match the
  replacement is inserted and one character is stepped over.
\<close>

function rsub_from :: "bool \<Rightarrow> item list \<Rightarrow> string \<Rightarrow> char option \<Rightarrow> string \<Rightarrow> string" where
  "rsub_from ic pat repl prev s =
     (case rmatch ic prev pat s of
        Some (prev', r) \<Rightarrow>
          if length r < length s then repl @ rsub_from ic pat repl prev' r
          else repl @ (case s of [] \<Rightarrow> [] | c # cs \<Rightarrow> c # rsub_from ic pat repl (Some c) cs)
      | None \<Rightarrow> (case s of [] \<Rightarrow> [] | c # cs \<Rightarrow> c # rsub_from ic pat repl (Some c) cs))"
  by pat_completeness auto
termination
  by (relation "measure (\<lambda>(ic, pat, repl, prev, s). length s)") auto

definition rsub :: "bool \<Rightarrow> item list \<Rightarrow> string \<Rightarrow> string \<Rightarrow> string" where
  "rsub ic pat repl s = rsub_from ic pat repl None s"

text \<open>\<open>re.search(pattern, s)\<close>: the start index of the leftmost match.\<close>

fun rsearch_from :: "bool \<Rightarrow> item list \<Rightarrow> char option \<Rightarrow> string \<Rightarrow> nat \<Rightarrow> nat option" where
  "rsearch_from ic pat prev [] i = (case rmatch ic prev pat [] of Some r \<Rightarrow> Some i | None \<Rightarrow> None)"
| "rsearch_from ic pat prev (c # cs) i =
     (case rmatch ic prev pat (c # cs) of
        Some r \<Rightarrow> Some i
      | None \<Rightarrow> rsearch_from ic pat (Some c) cs (Suc i))"

definition rsearch :: "bool \<Rightarrow> item list \<Rightarrow> string \<Rightarrow> nat option" where
  "rsearch ic pat s = rsearch_from ic pat None s 0"

text \<open>Pattern construction: a literal word, and the common pieces.\<close>

definition word :: "string \<Rightarrow> item list" where
  "word w = map (\<lambda>c. Q (Lit c) Once) w"

definition lits :: "string \<Rightarrow> (atom \<times> quant) list" where
  "lits w = map (\<lambda>c. (Lit c, Once)) w"

definition sp_star :: item where "sp_star = Q Space Greedy_Star"
definition sp_plus :: item where "sp_plus = Q Space Greedy_Plus"
definition lazy_any :: item where "lazy_any = Q AnyChar Lazy_Star"
definition greedy_any :: item where "greedy_any = Q AnyChar Greedy_Star"
definition dquote :: string where "dquote = [CHR 0x22]"

section \<open>Multi-source reasoning engine (phase3/scripts/genre\_classification\_system.py)\<close>

text \<open>
  The dataclasses \<open>GenreClassification\<close> and \<open>ArtistGenreProfile\<close>. Fields that no
  modelled function reads (source id, timestamps, metadata, raw source data, the A and R
  insights report) are left out. \<open>primary_genre\<close> is optional as in the dataclass.
\<close>

record GenreClassification =
  cls_name :: string
  cls_confidence :: real
  cls_source :: string
  cls_category :: string

record ArtistGenreProfile =
  artist_name :: string
  classifications :: "GenreClassification list"
  confidence_score :: real
  primary_genre :: "string option"
  secondary_tags :: "string list"
  crossover_indicators :: "string list"

text \<open>\<open>ArtistGenreProfile(artist_name=...)\<close> with the dataclass defaults.\<close>

definition new_profile :: "string \<Rightarrow> ArtistGenreProfile" where
  "new_profile a =
     \<lparr>artist_name = a, classifications = [], confidence_score = 0, primary_genre = None,
      secondary_tags = [], crossover_indicators = []\<rparr>"

text \<open>\<open>self.primary_genre_mapping\<close>, in the order the dictionary literal lists it.\<close>

definition primary_genre_mapping :: "(string \<times> string) list" where
  "primary_genre_mapping =
    [(''pop'', ''pop''), (''dance pop'', ''pop''), (''electropop'', ''pop''),
     (''synth pop'', ''pop''), (''teen pop'', ''pop''), (''power pop'', ''pop''),
     (''art pop'', ''pop''), (''baroque pop'', ''pop''), (''chamber pop'', ''pop''),
     (''rap'', ''hip-hop''), (''hip-hop'', ''hip-hop''), (''hip hop'', ''hip-hop''),
     (''trap'', ''hip-hop''), (''pop rap'', ''hip-hop''), (''melodic rap'', ''hip-hop''),
     (''conscious hip hop'', ''hip-hop''), (''old school hip hop'', ''hip-hop''),
     (''east coast hip hop'', ''hip-hop''), (''west coast hip hop'', ''hip-hop''),
     (''southern hip hop'', ''hip-hop''), (''drill'', ''hip-hop''),
     (''grime'', ''hip-hop''), (''rock'', ''rock''), (''hard rock'', ''rock''),
     (''classic rock'', ''rock''), (''progressive rock'', ''rock''),
     (''psychedelic rock'', ''rock''), (''garage rock'', ''rock''),
     (''blues rock'', ''rock''), (''folk rock'', ''rock''), (''pop rock'', ''rock''),
     (''punk rock'', ''rock''), (''metal'', ''rock''), (''heavy metal'', ''rock''),
     (''alternative'', ''alternative''), (''alternative rock'', ''alternative''),
     (''indie'', ''alternative''), (''indie rock'', ''alternative''),
     (''indie pop'', ''alternative''), (''alternative pop'', ''alternative''),
     (''indie folk'', ''alternative''), (''shoegaze'', ''alternative''),
     (''post-punk'', ''alternative''), (''post-rock'', ''alternative''),
     (''emo'', ''alternative''), (''grunge'', ''alternative''),
     (''new wave'', ''alternative''), (''britpop'', ''alternative''),
     (''country'', ''country''), (''country pop'', ''country''),
     (''new country'', ''country''), (''country rock'', ''country''),
     (''americana'', ''country''), (''bluegrass'', ''country''),
     (''country folk'', ''country''), (''electronic'', ''electronic''),
     (''edm'', ''electronic''), (''house'', ''electronic''), (''techno'', ''electronic''),
     (''trance'', ''electronic''), (''dubstep'', ''electronic''),
     (''ambient'', ''electronic''), (''drum and bass'', ''electronic''),
     (''breakbeat'', ''electronic''), (''garage'', ''electronic''),
     (''uk garage'', ''electronic''), (''future bass'', ''electronic''),
     (''synthwave'', ''electronic''), (''r&b'', ''r&b''), (''rnb'', ''r&b''),
     (''rhythm and blues'', ''r&b''), (''soul'', ''r&b''), (''neo soul'', ''r&b''),
     (''contemporary r&b'', ''r&b''), (''funk'', ''r&b''), (''gospel'', ''r&b''),
     (''motown'', ''r&b''), (''latin'', ''latin''), (''reggaeton'', ''latin''),
     (''latin pop'', ''latin''), (''latin trap'', ''latin''), (''salsa'', ''latin''),
     (''bachata'', ''latin''), (''merengue'', ''latin''), (''cumbia'', ''latin''),
     (''regional mexican'', ''latin''), (''mariachi'', ''latin''), (''folk'', ''folk''),
     (''acoustic'', ''folk''), (''singer-songwriter'', ''folk''),
     (''contemporary folk'', ''folk''), (''traditional folk'', ''folk''),
     (''celtic'', ''folk''), (''world music'', ''folk''), (''world'', ''folk''),
     (''jazz'', ''jazz''), (''smooth jazz'', ''jazz''), (''bebop'', ''jazz''),
     (''fusion'', ''jazz''), (''acid jazz'', ''jazz''), (''latin jazz'', ''jazz''),
     (''big band'', ''jazz''), (''swing'', ''jazz''), (''cool jazz'', ''jazz''),
     (''hard bop'', ''jazz'')]"

definition source_weights :: "(string \<times> real) list" where
  "source_weights =
     [(''chartmetric'', 0.35), (''spotify'', 0.30), (''lastfm'', 0.25), (''genius'', 0.10)]"

text \<open>\<open>self.source_weights.get(source, 0.1)\<close>.\<close>

definition source_weight :: "string \<Rightarrow> real" where
  "source_weight src = (case map_of source_weights src of Some w \<Rightarrow> w | None \<Rightarrow> 0.1)"

text \<open>The fallback loop of \<open>_map_to_primary_genre\<close>: the first table entry whose key
  contains the genre or is contained in it.\<close>

fun first_containing :: "string \<Rightarrow> (string \<times> string) list \<Rightarrow> string option" where
  "first_containing g [] = None"
| "first_containing g ((detailed_genre, primary) # rest) =
     (if contains detailed_genre g \<or> contains g detailed_genre then Some primary
      else first_containing g rest)"

definition map_to_primary_genre :: "string \<Rightarrow> string" where
  "map_to_primary_genre genre =
     (let genre_lower = strip (lower genre)
      in case map_of primary_genre_mapping genre_lower of
           Some primary \<Rightarrow> primary
         | None \<Rightarrow>
             (case first_containing genre_lower primary_genre_mapping of
                Some primary \<Rightarrow> primary
              | None \<Rightarrow> ''other''))"

text \<open>
  The vote dictionary keeps insertion order. \<open>add_vote\<close> is
  \<open>if g not in votes: votes[g] = 0; votes[g] += w\<close>.
\<close>

fun add_vote :: "string \<Rightarrow> real \<Rightarrow> (string \<times> real) list \<Rightarrow> (string \<times> real) list" where
  "add_vote g w [] = [(g, 0 + w)]"
| "add_vote g w ((k, v) # rest) =
     (if k = g then (k, v + w) # rest else (k, v) # add_vote g w rest)"

definition classification_weight :: "GenreClassification \<Rightarrow> real" where
  "classification_weight c = source_weight (cls_source c) * cls_confidence c"

definition genre_votes :: "GenreClassification list \<Rightarrow> (string \<times> real) list" where
  "genre_votes cs =
     fold (\<lambda>c votes. add_vote (map_to_primary_genre (cls_name c)) (classification_weight c) votes)
          cs []"

text \<open>\<open>max(votes, key=votes.get)\<close> on a non-empty dictionary: the first key, in
  insertion order, with the greatest value; returned with its value.\<close>

fun argmax_from :: "string \<times> real \<Rightarrow> (string \<times> real) list \<Rightarrow> string \<times> real" where
  "argmax_from best [] = best"
| "argmax_from (bk, bv) ((k, v) # rest) =
     argmax_from (if v > bv then (k, v) else (bk, bv)) rest"

text \<open>The sequence of \<open>secondary_tags.add\<close> calls.\<close>

definition tag_insertions :: "GenreClassification list \<Rightarrow> string list" where
  "tag_insertions cs =
     map (\<lambda>c. lower (cls_name c))
         (filter (\<lambda>c. lower (cls_name c) \<noteq> map_to_primary_genre (cls_name c)) cs)"

text \<open>
  \<open>sorted(items, key=lambda x: x[1], reverse=True)\<close>: descending by strength, stable
  (entries of equal strength keep their dictionary order).
\<close>

fun insert_desc :: "'a \<times> 'b::linorder \<Rightarrow> ('a \<times> 'b) list \<Rightarrow> ('a \<times> 'b) list" where
  "insert_desc x [] = [x]"
| "insert_desc x (y # ys) = (if snd y > snd x then y # insert_desc x ys else x # y # ys)"

definition sorted_desc :: "('a \<times> 'b::linorder) list \<Rightarrow> ('a \<times> 'b) list" where
  "sorted_desc xs = foldr insert_desc xs []"

definition detect_crossover_indicators :: "ArtistGenreProfile \<Rightarrow> string list" where
  "detect_crossover_indicators profile =
     (let sorted_genres = sorted_desc (genre_votes (classifications profile))
      in (case sorted_genres of
            (g1, primary_strength) # (g2, secondary_strength) # rest \<Rightarrow>
              if secondary_strength > primary_strength * 0.6
              then [''multi_genre_crossover'', ''primary_'' @ g1 @ ''_secondary_'' @ g2]
              else []
          | _ \<Rightarrow> [])
         @ (if length (secondary_tags profile) > 5 then [''high_genre_diversity''] else []))"

text \<open>
  \<open>list(s)\<close> for a Python set \<open>s\<close> of strings enumerates its elements in an order fixed
  by string hashing, which the program does not control. The enumeration is a parameter
  \<open>enum\<close> of the functions that use it: it maps the sequence of insertions to the
  resulting list, and \<open>set_enumeration\<close> says it lists exactly the distinct elements.
\<close>

definition set_enumeration :: "(string list \<Rightarrow> string list) \<Rightarrow> bool" where
  "set_enumeration enum = (\<forall>xs. distinct (enum xs) \<and> set (enum xs) = set xs)"

definition apply_ari_reasoning_engine ::
    "(string list \<Rightarrow> string list) \<Rightarrow> ArtistGenreProfile \<Rightarrow> ArtistGenreProfile" where
  "apply_ari_reasoning_engine enum profile =
     (if classifications profile = []
      then profile\<lparr>primary_genre := Some ''other'', confidence_score := 0\<rparr>
      else
        (let primary_genre_votes = genre_votes (classifications profile);
             p1 = (case primary_genre_votes of
                     [] \<Rightarrow> profile\<lparr>primary_genre := Some ''other'', confidence_score := 0\<rparr>
                   | kv # rest \<Rightarrow>
                       (let (primary, primary_weight) = argmax_from kv rest;
                            total_weight = sum_list (map snd primary_genre_votes)
                        in profile\<lparr>primary_genre := Some primary,
                                   confidence_score :=
                                     (if total_weight > 0 then primary_weight / total_weight
                                      else 0)\<rparr>));
             p2 = p1\<lparr>secondary_tags :=
                        take 10 (enum (tag_insertions (classifications profile)))\<rparr>
         in p2\<lparr>crossover_indicators := detect_crossover_indicators p2\<rparr>))"

text \<open>
  The source adapters as \<open>classify_artist\<close> sees them. Each lookup yields \<open>None\<close> when
  the client raises or returns nothing usable, otherwise the data the caller reads: the
  Spotify genre list, the Chartmetric genre list, and for Last.fm the analysed genre tags
  (name, confidence), sorted by confidence.
\<close>

record source_env =
  spotify_available :: bool
  spotify_lookup :: "string \<Rightarrow> string list option"
  chartmetric_available :: bool
  chartmetric_lookup :: "string \<Rightarrow> string list option"
  lastfm_available :: bool
  lastfm_lookup :: "string \<Rightarrow> (string \<times> real) list option"

text \<open>\<open>top_genres\<close> of \<open>LastFmGenreClient.extract_comprehensive_genre_data\<close>: of the
  first five genre tags, those with confidence above 0.4.\<close>

definition lastfm_top_genres :: "(string \<times> real) list \<Rightarrow> (string \<times> real) list" where
  "lastfm_top_genres genre_tags = filter (\<lambda>(n, c). c > 0.4) (take 5 genre_tags)"

definition mk_classification :: "string \<Rightarrow> string \<Rightarrow> real \<Rightarrow> string \<Rightarrow> GenreClassification" where
  "mk_classification src cat conf n =
     \<lparr>cls_name = n, cls_confidence = conf, cls_source = src, cls_category = cat\<rparr>"

section \<open>Persisted classifications and \<open>classify_artist\<close>\<close>

text \<open>
  The tables the classification reads: \<open>songs\<close>, \<open>song_genres\<close> and \<open>genres\<close>, each as
  the list of its rows in table order. Queries without an \<open>ORDER BY\<close> are modelled as
  returning rows in table order, confidences (\<open>Numeric(3, 2)\<close>) as reals.
\<close>

record song_row =
  song_id :: nat
  song_artist_name :: string
  first_chart_appearance :: string

record song_genre_row =
  sg_song_id :: nat
  sg_genre_id :: nat
  sg_confidence_score :: real

record genre_row =
  genre_id :: nat
  genre_name :: string

record database =
  songs :: "song_row list"
  song_genres :: "song_genre_row list"
  genres :: "genre_row list"

text \<open>SQL \<open>LIKE\<close>: \<open>%\<close> matches any sequence of characters, \<open>_\<close> any single one.
  \<open>ilike\<close> compares without regard to case.\<close>

fun like_match :: "string \<Rightarrow> string \<Rightarrow> bool" where
  "like_match [] s = (s = [])"
| "like_match (p # ps) [] = (p = CHR ''%'' \<and> like_match ps [])"
| "like_match (p # ps) (c # cs) =
     (if p = CHR ''%'' then like_match ps (c # cs) \<or> like_match (p # ps) cs
      else (p = CHR ''_'' \<or> p = c) \<and> like_match ps cs)"

definition ilike :: "string \<Rightarrow> string \<Rightarrow> bool" where
  "ilike text pattern = like_match (lower pattern) (lower text)"

text \<open>The songs of an artist: \<open>Songs.artist_name.ilike(f"%{artist_name}%")\<close>, and the year
  filter \<open>first_chart_appearance.like(f'{year}%')\<close> when a year is given.\<close>

definition artist_songs :: "database \<Rightarrow> string \<Rightarrow> string option \<Rightarrow> song_row list" where
  "artist_songs db name year =
     filter (\<lambda>s. ilike (song_artist_name s) (''%'' @ name @ ''%'')
                 \<and> (case year of
                       None \<Rightarrow> True
                     | Some y \<Rightarrow> y = [] \<or> like_match (y @ ''%'') (first_chart_appearance s)))
            (songs db)"

definition high_confidence_rows :: "database \<Rightarrow> nat list \<Rightarrow> song_genre_row list" where
  "high_confidence_rows db song_ids =
     filter (\<lambda>r. sg_song_id r \<in> set song_ids \<and> sg_confidence_score r > 0.8) (song_genres db)"

definition genre_of :: "database \<Rightarrow> nat \<Rightarrow> genre_row option" where
  "genre_of db gid = find (\<lambda>g. genre_id g = gid) (genres db)"

definition get_existing_classification ::
    "database \<Rightarrow> string \<Rightarrow> string option \<Rightarrow> ArtistGenreProfile option" where
  "get_existing_classification db name year =
     (let matching = artist_songs db name year
      in if matching = [] then None
         else
           (let song_ids = map song_id matching;
                classified_count = length (high_confidence_rows db song_ids)
            in if classified_count = length matching \<and> classified_count > 0
               then (case filter (\<lambda>r. genre_of db (sg_genre_id r) \<noteq> None)
                                 (high_confidence_rows db song_ids) of
                       [] \<Rightarrow> None
                     | song_genre # rest \<Rightarrow>
                         (case genre_of db (sg_genre_id song_genre) of
                            None \<Rightarrow> None
                          | Some g \<Rightarrow>
                              Some ((new_profile name)
                                      \<lparr>primary_genre := Some (genre_name g),
                                       confidence_score := sg_confidence_score song_genre\<rparr>)))
               else None))"

text \<open>\<open>_get_genius_artist_genres\<close>: the distinct names of the genres attached to the
  artist's songs (genre names are unique in the \<open>genres\<close> table).\<close>

definition get_genius_artist_genres :: "database \<Rightarrow> string \<Rightarrow> string list" where
  "get_genius_artist_genres db name =
     (let song_ids = map song_id (artist_songs db name None)
      in map genre_name
           (filter (\<lambda>g. list_ex (\<lambda>r. sg_genre_id r = genre_id g \<and> sg_song_id r \<in> set song_ids)
                                (song_genres db))
                   (genres db)))"

text \<open>\<open>_extract_primary_artist\<close>: cut at the first featuring indicator that occurs, trying
  the indicators in list order.\<close>

definition featuring_patterns :: "item list list" where
  "featuring_patterns =
    [sp_plus # word ''feat'' @ [Q (Lit CHR ''.'') Optional, sp_plus],
     sp_plus # word ''ft'' @ [Q (Lit CHR ''.'') Optional, sp_plus],
     sp_plus # word ''featuring'' @ [sp_plus],
     sp_plus # word ''with'' @ [sp_plus],
     sp_plus # word ''&'' @ [sp_plus],
     sp_plus # word ''x'' @ [sp_plus],
     sp_plus # word ''+'' @ [sp_plus]]"

fun cut_at_first :: "item list list \<Rightarrow> string \<Rightarrow> string" where
  "cut_at_first [] s = s"
| "cut_at_first (pattern # patterns) s =
     (case rsearch True pattern s of
        Some start \<Rightarrow> strip (take start s)
      | None \<Rightarrow> cut_at_first patterns s)"

definition extract_primary_artist :: "string \<Rightarrow> string" where
  "extract_primary_artist name = cut_at_first featuring_patterns (strip (lower name))"

text \<open>
  The source polling of \<open>classify_artist\<close>. The result is the list of classifications
  appended to the profile and the list of sources that were called, in call order.
\<close>

definition poll_spotify :: "source_env \<Rightarrow> string \<Rightarrow> GenreClassification list \<times> string list \<times> bool" where
  "poll_spotify env primary_artist =
     (if spotify_available env
      then (case spotify_lookup env primary_artist of
              Some gs \<Rightarrow>
                if gs \<noteq> []
                then (map (mk_classification ''spotify'' ''algorithmic'' 0.7) gs, [''spotify''], True)
                else ([], [''spotify''], False)
            | None \<Rightarrow> ([], [''spotify''], False))
      else ([], [], False))"

definition poll_chartmetric :: "source_env \<Rightarrow> string \<Rightarrow> GenreClassification list \<times> string list" where
  "poll_chartmetric env primary_artist =
     (if chartmetric_available env
      then (case chartmetric_lookup env primary_artist of
              Some gs \<Rightarrow> (map (mk_classification ''chartmetric'' ''industry'' 0.8) gs, [''chartmetric''])
            | None \<Rightarrow> ([], [''chartmetric'']))
      else ([], []))"

definition poll_lastfm :: "source_env \<Rightarrow> string \<Rightarrow> GenreClassification list \<times> string list" where
  "poll_lastfm env primary_artist =
     (if lastfm_available env
      then (case lastfm_lookup env primary_artist of
              Some genre_tags \<Rightarrow>
                (map (\<lambda>(n, c). mk_classification ''lastfm'' ''community'' c n)
                     (lastfm_top_genres genre_tags), [''lastfm''])
            | None \<Rightarrow> ([], [''lastfm'']))
      else ([], []))"

definition poll_genius :: "database \<Rightarrow> string \<Rightarrow> GenreClassification list \<times> string list" where
  "poll_genius db name =
     (map (mk_classification ''genius'' ''database'' 0.6) (get_genius_artist_genres db name),
      [''genius''])"

definition collect_classifications ::
    "source_env \<Rightarrow> database \<Rightarrow> string \<Rightarrow> string \<Rightarrow> GenreClassification list \<times> string list" where
  "collect_classifications env db primary_artist name =
     (case poll_spotify env primary_artist of
        (c1, t1, spotify_has_good_data) \<Rightarrow>
          (case (if spotify_has_good_data then ([], []) else poll_chartmetric env primary_artist) of
             (c2, t2) \<Rightarrow>
               (case poll_lastfm env primary_artist of
                  (c3, t3) \<Rightarrow>
                    (case poll_genius db name of
                       (c4, t4) \<Rightarrow> (c1 @ c2 @ c3 @ c4, t1 @ t2 @ t3 @ t4)))))"

text \<open>
  \<open>classify_artist\<close>. The state is the in-memory classification cache; the result is the
  profile, the cache afterwards and the sources called. \<open>build_profile\<close> polls the
  sources and applies the reasoning engine; \<open>classify_uncached\<close> is the part after the
  check for an existing high-confidence classification.
\<close>

definition build_profile ::
    "source_env \<Rightarrow> (string list \<Rightarrow> string list) \<Rightarrow> database \<Rightarrow> string \<Rightarrow> string
     \<Rightarrow> ArtistGenreProfile \<times> string list" where
  "build_profile env enum db name primary_artist =
     (case collect_classifications env db primary_artist name of
        (cs, calls) \<Rightarrow>
          (apply_ari_reasoning_engine enum ((new_profile name)\<lparr>classifications := cs\<rparr>), calls))"

definition classify_uncached ::
    "source_env \<Rightarrow> (string list \<Rightarrow> string list) \<Rightarrow> database \<Rightarrow> (string \<rightharpoonup> ArtistGenreProfile)
     \<Rightarrow> string \<Rightarrow> string \<Rightarrow> ArtistGenreProfile \<times> (string \<rightharpoonup> ArtistGenreProfile) \<times> string list" where
  "classify_uncached env enum db cache name primary_artist =
     (let cache_key = ''artist_'' @ primary_artist
      in case cache cache_key of
           Some p \<Rightarrow> (p, cache, [])
         | None \<Rightarrow>
             (case build_profile env enum db name primary_artist of
                (profile, calls) \<Rightarrow> (profile, cache(cache_key \<mapsto> profile), calls)))"

definition classify_artist ::
    "source_env \<Rightarrow> (string list \<Rightarrow> string list) \<Rightarrow> database \<Rightarrow> (string \<rightharpoonup> ArtistGenreProfile)
     \<Rightarrow> string \<Rightarrow> ArtistGenreProfile \<times> (string \<rightharpoonup> ArtistGenreProfile) \<times> string list" where
  "classify_artist env enum db cache name =
     (let primary_artist = extract_primary_artist name
      in case get_existing_classification db name None of
           Some existing_profile \<Rightarrow>
             if confidence_score existing_profile > 0.8 then (existing_profile, cache, [])
             else classify_uncached env enum db cache name primary_artist
         | None \<Rightarrow> classify_uncached env enum db cache name primary_artist)"

text \<open>
  The hypothesis of the idempotence rule as the specification words it: the artist has
  catalog entries, and every one of them carries a genre with confidence above 0.8.
\<close>

definition all_entries_classified :: "database \<Rightarrow> string \<Rightarrow> bool" where
  "all_entries_classified db name =
     (artist_songs db name None \<noteq> []
      \<and> list_all (\<lambda>s. list_ex (\<lambda>r. sg_song_id r = song_id s \<and> sg_confidence_score r > 0.8
                                  \<and> genre_of db (sg_genre_id r) \<noteq> None)
                           (song_genres db))
                  (artist_songs db name None))"

section \<open>Concrete inputs used in the evaluations\<close>

text \<open>An artist with one song; the database knows one genre for it, with a confidence
  that is not high.\<close>

definition db_one_song :: database where
  "db_one_song =
     \<lparr>songs = [\<lparr>song_id = 1, song_artist_name = ''Adele'', first_chart_appearance = ''2011-01-29''\<rparr>],
      song_genres = [\<lparr>sg_song_id = 1, sg_genre_id = 1, sg_confidence_score = 0.6\<rparr>],
      genres = [\<lparr>genre_id = 1, genre_name = ''soul''\<rparr>]\<rparr>"

text \<open>The same song with two high-confidence genre rows.\<close>

definition db_two_rows :: database where
  "db_two_rows =
     \<lparr>songs = [\<lparr>song_id = 1, song_artist_name = ''Adele'', first_chart_appearance = ''2011-01-29''\<rparr>],
      song_genres = [\<lparr>sg_song_id = 1, sg_genre_id = 1, sg_confidence_score = 0.9\<rparr>,
                     \<lparr>sg_song_id = 1, sg_genre_id = 2, sg_confidence_score = 0.95\<rparr>],
      genres = [\<lparr>genre_id = 1, genre_name = ''pop''\<rparr>, \<lparr>genre_id = 2, genre_name = ''soul''\<rparr>]\<rparr>"

text \<open>The same song with one high-confidence genre row.\<close>

definition db_one_row :: database where
  "db_one_row =
     \<lparr>songs = [\<lparr>song_id = 1, song_artist_name = ''Adele'', first_chart_appearance = ''2011-01-29''\<rparr>],
      song_genres = [\<lparr>sg_song_id = 1, sg_genre_id = 1, sg_confidence_score = 0.9\<rparr>],
      genres = [\<lparr>genre_id = 1, genre_name = ''pop''\<rparr>, \<lparr>genre_id = 2, genre_name = ''soul''\<rparr>]\<rparr>"

text \<open>Spotify answers with one genre; Chartmetric finds nothing; Last.fm is not configured.\<close>

definition env_spotify_only :: source_env where
  "env_spotify_only =
     \<lparr>spotify_available = True, spotify_lookup = (\<lambda>a. Some [''dance pop'']),
      chartmetric_available = True, chartmetric_lookup = (\<lambda>a. None),
      lastfm_available = False, lastfm_lookup = (\<lambda>a. None)\<rparr>"

text \<open>All three clients are configured and none finds the artist.\<close>

definition env_no_data :: source_env where
  "env_no_data =
     \<lparr>spotify_available = True, spotify_lookup = (\<lambda>a. None),
      chartmetric_available = True, chartmetric_lookup = (\<lambda>a. None),
      lastfm_available = True, lastfm_lookup = (\<lambda>a. None)\<rparr>"

text \<open>Two Last.fm classifications whose weights are 0.25 and exactly 60 percent of it.\<close>

definition profile_sixty_percent :: ArtistGenreProfile where
  "profile_sixty_percent =
     (new_profile ''Artist'')
       \<lparr>classifications := [mk_classification ''lastfm'' ''community'' 1.0 ''rock'',
                            mk_classification ''lastfm'' ''community'' 0.6 ''pop'']\<rparr>"

section \<open>Title cleaning, query generation and matching (phase2/src/api/enhanced\_genius\_client.py)\<close>

text \<open>\<open>self.suffixes_to_remove\<close>, in order; all are applied with \<open>re.IGNORECASE\<close>.\<close>

definition suffixes_to_remove :: "item list list" where
  "suffixes_to_remove =
    [sp_star # word ''(with'' @ [sp_plus, lazy_any] @ word '')'',
     sp_star # word ''(feat'' @ [Q (Lit CHR ''.'') Optional, sp_plus, lazy_any] @ word '')'',
     sp_star # word ''(featuring'' @ [sp_plus, lazy_any] @ word '')'',
     sp_star # word ''(ft'' @ [Q (Lit CHR ''.'') Optional, sp_plus, lazy_any] @ word '')'',
     sp_star # word ''(f/'' @ [sp_plus, lazy_any] @ word '')'',
     sp_star # word ''(x'' @ [sp_plus, lazy_any] @ word '')'',
     sp_star # word ''-'' @ [sp_star] @ word ''Remastered'' @ [greedy_any, Eol],
     sp_star # word ''(Remastered'' @ [lazy_any] @ word '')'',
     sp_star # word ''-'' @ [sp_star, lazy_any] @ word ''Remaster'' @ [greedy_any, Eol],
     sp_star # word ''-'' @ [sp_star, lazy_any] @ word ''Version'' @ [greedy_any, Eol],
     sp_star # word ''('' @ [lazy_any] @ word ''Version'' @ [lazy_any] @ word '')'',
     sp_star # word ''-'' @ [sp_star] @ word ''From'' @ [sp_plus] @ word dquote @ [lazy_any]
       @ word dquote @ [greedy_any, Eol],
     sp_star # word ''(From'' @ [sp_plus] @ word dquote @ [lazy_any] @ word dquote
       @ [lazy_any] @ word '')'',
     sp_star # word ''-'' @ [sp_star] @ word ''featured'' @ [sp_plus] @ word ''in''
       @ [greedy_any, Eol],
     sp_star # word ''(featured'' @ [sp_plus] @ word ''in'' @ [lazy_any] @ word '')'',
     sp_star # word ''-'' @ [sp_star] @ word ''From'' @ [sp_plus] @ word ''the''
       @ [greedy_any, Eol],
     sp_star # word ''(From'' @ [sp_plus] @ word ''the'' @ [lazy_any] @ word '')'',
     sp_star # word ''-'' @ [sp_star, lazy_any] @ word ''Radio'' @ [greedy_any, Eol],
     sp_star # word ''('' @ [lazy_any] @ word ''Radio'' @ [lazy_any] @ word '')'',
     sp_star # word ''-'' @ [sp_star, lazy_any] @ word ''Mix'' @ [greedy_any, Eol],
     sp_star # word ''('' @ [lazy_any] @ word ''Mix'' @ [lazy_any] @ word '')'']"

text \<open>The censored-word replacements, e.g. \<open>\bb\*+h\b\<close> by \<open>bitch\<close>.\<close>

definition censored :: "string \<Rightarrow> string \<Rightarrow> item list" where
  "censored first_letters last_letters =
     WordB # word first_letters @ [Q (Lit CHR ''*'') Greedy_Plus] @ word last_letters @ [WordB]"

definition uncensor :: "string \<Rightarrow> string" where
  "uncensor s =
     rsub True (censored ''n'' ''a'') ''nigga''
       (rsub True (censored ''f'' ''k'') ''fuck''
         (rsub True (censored ''s'' ''t'') ''shit''
           (rsub True (censored ''a'' '''') ''ass''
             (rsub True (censored ''b'' ''h'') ''bitch'' s))))"

definition clean_title_for_search :: "string \<Rightarrow> string" where
  "clean_title_for_search title =
     (let cleaned = fold (\<lambda>pattern cleaned. rsub True pattern '''' cleaned) suffixes_to_remove title;
          cleaned = uncensor cleaned
      in strip (rsub False [sp_plus] '' '' cleaned))"

text \<open>\<open>s.split(sep)[0]\<close> for a one-character separator.\<close>

definition split_first :: "char \<Rightarrow> string \<Rightarrow> string" where
  "split_first sep s = takeWhile (\<lambda>c. c \<noteq> sep) s"

text \<open>\<open>\s+(feat\.?|featuring|ft\.?|with|f/)\s+.*$\<close>\<close>

definition featuring_clause :: "item list" where
  "featuring_clause =
     [sp_plus,
      Alt [lits ''feat'' @ [(Lit CHR ''.'', Optional)], lits ''featuring'',
           lits ''ft'' @ [(Lit CHR ''.'', Optional)], lits ''with'', lits ''f/''],
      sp_plus, greedy_any, Eol]"

definition extract_main_artist :: "string \<Rightarrow> string" where
  "extract_main_artist artist =
     (let main_artist = strip (split_first CHR ''&'' (split_first CHR '','' artist))
      in strip (rsub True featuring_clause '''' main_artist))"

text \<open>The loop that removes duplicates while preserving order.\<close>

fun unique_queries :: "string list \<Rightarrow> string list \<Rightarrow> string list" where
  "unique_queries seen [] = []"
| "unique_queries seen (query # queries) =
     (if query \<in> set seen then unique_queries seen queries
      else query # unique_queries (query # seen) queries)"

definition generate_search_queries :: "string \<Rightarrow> string \<Rightarrow> string list" where
  "generate_search_queries title artist =
     (let clean_title = clean_title_for_search title;
          main_artist = extract_main_artist artist;
          main_artist_no_punct = strip (rsub False [Q (OneOf [CHR 0x27, CHR ''-'', CHR ''.'']) Once] '''' main_artist);
          simplified_title = strip (rsub False [Q NotWordSpace Once] '' '' clean_title);
          simplified_title = rsub False [sp_plus] '' '' simplified_title;
          queries =
            [clean_title @ '' '' @ main_artist]
            @ (if artist \<noteq> main_artist then [clean_title @ '' '' @ artist] else [])
            @ [main_artist @ '' '' @ clean_title]
            @ [clean_title]
            @ (if title \<noteq> clean_title then [title @ '' '' @ main_artist] else [])
            @ (if simplified_title \<noteq> clean_title then [simplified_title @ '' '' @ main_artist]
               else [])
            @ (if main_artist_no_punct \<noteq> main_artist
               then [clean_title @ '' '' @ main_artist_no_punct,
                     main_artist_no_punct @ '' '' @ clean_title]
               else [])
      in unique_queries [] queries)"

text \<open>
  \<open>fuzz.ratio\<close> belongs to the third-party package fuzzywuzzy. It is a parameter of the
  matcher: \<open>None\<close> when the import failed (\<open>FUZZYWUZZY_AVAILABLE = False\<close>), otherwise the
  similarity function, which returns an integer from 0 to 100.
\<close>

type_synonym ratio_fn = "string \<Rightarrow> string \<Rightarrow> nat"

definition title_norm :: "string \<Rightarrow> string" where
  "title_norm title = lower (clean_title_for_search title)"

text \<open>\<open>^\s*(the|a|an)\s+\<close>\<close>

definition remove_articles :: "string \<Rightarrow> string" where
  "remove_articles text =
     strip (rsub True [Bol, sp_star, Alt [lits ''the'', lits ''a'', lits ''an''], sp_plus] '''' text)"

text \<open>\<open>\s*\([^)]*\)\<close>\<close>

definition remove_all_parentheticals :: "string \<Rightarrow> string" where
  "remove_all_parentheticals text =
     strip (rsub False (sp_star # word ''('' @ [Q (NoneOf '')'') Greedy_Star] @ word '')'') '''' text)"

text \<open>\<open>\s*\(?(feat\.|ft\.)\s+[^)]*\)?\<close>\<close>

definition remove_feat :: "string \<Rightarrow> string" where
  "remove_feat text =
     strip (rsub True
              [sp_star, Q (Lit CHR ''('') Optional, Alt [lits ''feat.'', lits ''ft.''], sp_plus,
               Q (NoneOf '')'') Greedy_Star, Q (Lit CHR '')'') Optional]
              '''' text)"

definition main_artist_of :: "string \<Rightarrow> string" where
  "main_artist_of original_artist =
     (let main_artist = strip (split_first CHR ''&'' (split_first CHR '','' original_artist))
      in lower (strip (rsub True featuring_clause '''' main_artist)))"

definition title_similarity :: "ratio_fn \<Rightarrow> string \<Rightarrow> string \<Rightarrow> nat" where
  "title_similarity ratio genius_title original_title =
     ratio (title_norm genius_title) (title_norm original_title)"

definition title_similarity_no_feat :: "ratio_fn \<Rightarrow> string \<Rightarrow> string \<Rightarrow> nat" where
  "title_similarity_no_feat ratio genius_title original_title =
     ratio (remove_feat (title_norm genius_title)) (remove_feat (title_norm original_title))"

definition title_similarity_no_article :: "ratio_fn \<Rightarrow> string \<Rightarrow> string \<Rightarrow> nat" where
  "title_similarity_no_article ratio genius_title original_title =
     ratio (remove_articles (title_norm genius_title)) (remove_articles (title_norm original_title))"

definition title_similarity_no_parens :: "ratio_fn \<Rightarrow> string \<Rightarrow> string \<Rightarrow> nat" where
  "title_similarity_no_parens ratio genius_title original_title =
     ratio (remove_all_parentheticals (title_norm genius_title))
           (remove_all_parentheticals (title_norm original_title))"

definition artist_similarity :: "ratio_fn \<Rightarrow> string \<Rightarrow> string \<Rightarrow> nat" where
  "artist_similarity ratio genius_artist original_artist =
     ratio (lower genius_artist) (main_artist_of original_artist)"

definition best_title_similarity :: "ratio_fn \<Rightarrow> string \<Rightarrow> string \<Rightarrow> string \<Rightarrow> string \<Rightarrow> nat" where
  "best_title_similarity ratio genius_title genius_artist original_title original_artist =
     (let ts = title_similarity ratio genius_title original_title;
          ts_no_feat = title_similarity_no_feat ratio genius_title original_title;
          ts_no_article = title_similarity_no_article ratio genius_title original_title;
          ts_no_parens = title_similarity_no_parens ratio genius_title original_title
      in if ts_no_parens > max ts (max ts_no_feat ts_no_article)
         then (if artist_similarity ratio genius_artist original_artist \<ge> 85
               then ts_no_parens
               else max ts (max ts_no_feat ts_no_article))
         else max ts (max ts_no_feat (max ts_no_article ts_no_parens)))"

definition artist_threshold :: "nat \<Rightarrow> nat" where
  "artist_threshold best =
     (if best = 100 then 45 else if best \<ge> 95 then 60 else 70)"

definition artist_match :: "ratio_fn \<Rightarrow> nat \<Rightarrow> string \<Rightarrow> string \<Rightarrow> bool" where
  "artist_match ratio best genius_artist original_artist =
     (contains (lower genius_artist) (main_artist_of original_artist)
      \<or> contains (main_artist_of original_artist) (lower genius_artist)
      \<or> ratio (lower genius_artist) (main_artist_of original_artist) \<ge> artist_threshold best)"

definition is_good_match :: "ratio_fn option \<Rightarrow> string \<Rightarrow> string \<Rightarrow> string \<Rightarrow> string \<Rightarrow> bool" where
  "is_good_match fuzzy genius_title genius_artist original_title original_artist =
     (case fuzzy of
        None \<Rightarrow>
          contains (lower original_title) (lower genius_title)
          \<or> contains (lower genius_title) (lower original_title)
      | Some ratio \<Rightarrow>
          (let best = best_title_similarity ratio genius_title genius_artist
                        original_title original_artist
           in best \<ge> 70 \<and> artist_match ratio best genius_artist original_artist))"

text \<open>
  An upper bound that every similarity ratio built on matching characters satisfies for
  two different strings: twice the length of a longest common subsequence over the sum
  of the lengths, as a percentage, rounded up. \<open>lcs_row\<close> computes one row of the usual
  table from the previous one.
\<close>

fun lcs_row :: "char \<Rightarrow> string \<Rightarrow> nat list \<Rightarrow> nat \<Rightarrow> nat \<Rightarrow> nat list" where
  "lcs_row x [] prev_row diag left = []"
| "lcs_row x (y # ys) [] diag left = []"
| "lcs_row x (y # ys) (p # ps) diag left =
     (let v = (if x = y then Suc diag else max p left) in v # lcs_row x ys ps p v)"

definition lcs_length :: "string \<Rightarrow> string \<Rightarrow> nat" where
  "lcs_length xs ys =
     last (0 # fold (\<lambda>x row. lcs_row x ys row 0 0) xs (replicate (length ys) 0))"

definition lcs_ratio_bound :: "string \<Rightarrow> string \<Rightarrow> nat" where
  "lcs_ratio_bound a b =
     (200 * lcs_length a b + (length a + length b) - 1) div (length a + length b)"

definition ratio_within_lcs :: "ratio_fn \<Rightarrow> bool" where
  "ratio_within_lcs ratio = (\<forall>a b. a = b \<or> ratio a b \<le> lcs_ratio_bound a b)"

text \<open>
  A model of \<open>fuzz.ratio\<close> itself, used for concrete evaluations: equal strings score
  100, an empty string against a non-empty one scores 0, otherwise the score is
  \<open>100 * 2 * M / T\<close> rounded to the nearest integer (halves to the even one), with \<open>M\<close> the
  number of matching characters (a longest common subsequence, as python-Levenshtein
  counts them) and \<open>T\<close> the sum of the lengths.
\<close>

definition round_half_even :: "nat \<Rightarrow> nat \<Rightarrow> nat" where
  "round_half_even n d =
     (let q = n div d; r = n mod d
      in if 2 * r < d then q else if 2 * r > d then Suc q else if even q then q else Suc q)"

definition fuzz_ratio :: ratio_fn where
  "fuzz_ratio a b =
     (if a = b then 100
      else if a = [] \<or> b = [] then 0
      else round_half_even (200 * lcs_length a b) (length a + length b))"

text \<open>An empty string against a non-empty one scores 0.\<close>

definition ratio_empty_zero :: "ratio_fn \<Rightarrow> bool" where
  "ratio_empty_zero ratio = (\<forall>s. s = [] \<or> (ratio [] s = 0 \<and> ratio s [] = 0))"

section \<open>Producer signatures (phase3/src/api/producer\_genre\_patterns.py)\<close>

text \<open>An entry of \<open>PRODUCER_GENRE_SIGNATURES\<close>; the free-text notes and the optional
  secondary genre, which no function reads, are left out.\<close>

record signature =
  sig_primary :: string
  subgenres :: "string list"
  sig_confidence :: real

definition PRODUCER_GENRE_SIGNATURES :: "(string \<times> signature) list" where
  "PRODUCER_GENRE_SIGNATURES =
    [(''max martin'', \<lparr>sig_primary = ''pop'',
        subgenres = [''dance-pop'', ''teen-pop'', ''electropop''], sig_confidence = 0.95\<rparr>),
     (''rami'', \<lparr>sig_primary = ''pop'',
        subgenres = [''dance-pop'', ''electropop''], sig_confidence = 0.90\<rparr>),
     (''bag & arnthor'', \<lparr>sig_primary = ''pop'',
        subgenres = [''dance-pop'', ''teen-pop''], sig_confidence = 0.90\<rparr>),
     (''kristian lundin'', \<lparr>sig_primary = ''pop'',
        subgenres = [''dance-pop'', ''teen-pop''], sig_confidence = 0.90\<rparr>),
     (''the neptunes'', \<lparr>sig_primary = ''hip-hop'',
        subgenres = [''alternative-hip-hop'', ''pop-rap'', ''southern-hip-hop''],
        sig_confidence = 0.95\<rparr>),
     (''mannie fresh'', \<lparr>sig_primary = ''hip-hop'',
        subgenres = [''southern-hip-hop'', ''crunk'', ''bounce''], sig_confidence = 0.95\<rparr>),
     (''dr. dre'', \<lparr>sig_primary = ''hip-hop'',
        subgenres = [''west-coast-hip-hop'', ''g-funk'', ''gangster-rap''],
        sig_confidence = 0.95\<rparr>),
     (''swizz beatz'', \<lparr>sig_primary = ''hip-hop'',
        subgenres = [''east-coast-hip-hop'', ''hardcore-hip-hop''], sig_confidence = 0.90\<rparr>),
     (''bryan-michael cox'', \<lparr>sig_primary = ''r&b'',
        subgenres = [''contemporary-r&b'', ''neo-soul''], sig_confidence = 0.90\<rparr>),
     (''rodney jerkins'', \<lparr>sig_primary = ''r&b'',
        subgenres = [''contemporary-r&b'', ''pop-r&b''], sig_confidence = 0.85\<rparr>),
     (''timbaland'', \<lparr>sig_primary = ''hip-hop'',
        subgenres = [''alternative-r&b'', ''contemporary-r&b'', ''pop-rap''],
        sig_confidence = 0.85\<rparr>),
     (''jermaine dupri'', \<lparr>sig_primary = ''hip-hop'',
        subgenres = [''southern-hip-hop'', ''contemporary-r&b'', ''pop-rap''],
        sig_confidence = 0.80\<rparr>),
     (''byron gallimore'', \<lparr>sig_primary = ''country'',
        subgenres = [''contemporary-country'', ''country-pop''], sig_confidence = 0.95\<rparr>),
     (''james stroud'', \<lparr>sig_primary = ''country'',
        subgenres = [''contemporary-country'', ''traditional-country''], sig_confidence = 0.90\<rparr>),
     (''paul worley'', \<lparr>sig_primary = ''country'',
        subgenres = [''contemporary-country'', ''bluegrass''], sig_confidence = 0.90\<rparr>),
     (''dann huff'', \<lparr>sig_primary = ''country'',
        subgenres = [''contemporary-country'', ''country-rock''], sig_confidence = 0.90\<rparr>),
     (''rick rubin'', \<lparr>sig_primary = ''rock'',
        subgenres = [''alternative-rock'', ''hard-rock'', ''rap-rock''], sig_confidence = 0.90\<rparr>),
     (''don gilmore'', \<lparr>sig_primary = ''rock'',
        subgenres = [''nu-metal'', ''alternative-metal''], sig_confidence = 0.90\<rparr>)]"

text \<open>\<open>ERA_BASED_SUBGENRES\<close>; a key such as \<open>'2000-2004'\<close> is written as the pair of
  years that \<open>get_era_subgenres\<close> parses it into.\<close>

definition ERA_BASED_SUBGENRES :: "(string \<times> ((int \<times> int) \<times> string list) list) list" where
  "ERA_BASED_SUBGENRES =
    [(''pop'',
       [((2000, 2004), [''teen-pop'', ''dance-pop'']),
        ((2005, 2009), [''pop-rock'', ''emo-pop'']),
        ((2010, 2015), [''electropop'', ''indie-pop'']),
        ((2016, 2020), [''alt-pop'', ''bedroom-pop'']),
        ((2021, 2025), [''hyperpop'', ''alt-pop''])]),
     (''hip-hop'',
       [((2000, 2003), [''southern-hip-hop'', ''crunk'']),
        ((2004, 2008), [''snap-music'', ''ringtone-rap'']),
        ((2009, 2012), [''blog-rap'', ''conscious-hip-hop'']),
        ((2013, 2016), [''trap'', ''drill'']),
        ((2017, 2020), [''emo-rap'', ''melodic-rap'']),
        ((2021, 2025), [''rage-rap'', ''plugg''])]),
     (''country'',
       [((2000, 2010), [''country-pop'', ''contemporary-country'']),
        ((2011, 2015), [''bro-country'', ''country-pop'']),
        ((2016, 2025), [''country-trap'', ''country-pop''])]),
     (''r&b'',
       [((2000, 2005), [''neo-soul'', ''contemporary-r&b'']),
        ((2006, 2010), [''alternative-r&b'', ''contemporary-r&b'']),
        ((2011, 2025), [''alternative-r&b'', ''pop-r&b''])])]"

definition PRODUCER_NAME_VARIATIONS :: "(string \<times> string) list" where
  "PRODUCER_NAME_VARIATIONS =
    [(''pharrell williams'', ''the neptunes''), (''chad hugo'', ''the neptunes''),
     (''pharrell'', ''the neptunes''), (''darkchild'', ''rodney jerkins''),
     (''rodney jenkins'', ''rodney jerkins''), (''timbo'', ''timbaland''),
     (''tim mosley'', ''timbaland''), (''jd'', ''jermaine dupri''), (''max'', ''max martin'')]"

fun era_lookup :: "((int \<times> int) \<times> string list) list \<Rightarrow> int \<Rightarrow> string list" where
  "era_lookup [] year = []"
| "era_lookup (((start, end), sgs) # rest) year =
     (if start \<le> year \<and> year \<le> end then sgs else era_lookup rest year)"

definition get_era_subgenres :: "string \<Rightarrow> int \<Rightarrow> string list" where
  "get_era_subgenres genre year =
     (case map_of ERA_BASED_SUBGENRES genre of
        None \<Rightarrow> []
      | Some era_map \<Rightarrow> era_lookup era_map year)"

text \<open>
  \<open>get_producer_subgenres\<close>. The year is optional, and \<open>if year\<close> is also false for 0.
  \<open>list(set(a + b))\<close> is \<open>enum (a @ b)\<close>.
\<close>

definition get_producer_subgenres ::
    "(string list \<Rightarrow> string list) \<Rightarrow> string \<Rightarrow> int option \<Rightarrow> signature option" where
  "get_producer_subgenres enum producer_name year =
     (let producer_lower = strip (lower producer_name);
          producer_lower = (case map_of PRODUCER_NAME_VARIATIONS producer_lower of
                              Some canonical \<Rightarrow> canonical
                            | None \<Rightarrow> producer_lower)
      in case map_of PRODUCER_GENRE_SIGNATURES producer_lower of
           None \<Rightarrow> None
         | Some sg \<Rightarrow>
             (case year of
                None \<Rightarrow> Some sg
              | Some y \<Rightarrow>
                  if y \<noteq> 0 \<and> map_of ERA_BASED_SUBGENRES (sig_primary sg) \<noteq> None
                  then (let era_subgenres = get_era_subgenres (sig_primary sg) y
                        in if era_subgenres \<noteq> []
                           then Some (sg\<lparr>subgenres := enum (subgenres sg @ era_subgenres)\<rparr>)
                           else Some sg)
                  else Some sg))"

text \<open>\<open>Counter(xs)\<close>: the counts, keyed in order of first occurrence.\<close>

fun count_add :: "string \<Rightarrow> (string \<times> nat) list \<Rightarrow> (string \<times> nat) list" where
  "count_add x [] = [(x, 1)]"
| "count_add x ((k, n) # rest) = (if k = x then (k, Suc n) # rest else (k, n) # count_add x rest)"

definition counter :: "string list \<Rightarrow> (string \<times> nat) list" where
  "counter xs = fold count_add xs []"

text \<open>\<open>most_common(n)\<close>: the \<open>n\<close> greatest counts, equal counts in order of first
  occurrence.\<close>

definition most_common :: "nat \<Rightarrow> (string \<times> nat) list \<Rightarrow> (string \<times> nat) list" where
  "most_common n counts = take n (sorted_desc counts)"

record producer_contribution =
  suggested_subgenres :: "string list"
  pc_confidence :: real
  num_producers :: nat
  pc_source :: string

text \<open>One iteration of the loop over the song's producers; the state is
  \<open>(all_subgenres, all_primaries, total_confidence)\<close>.\<close>

definition producer_step ::
    "(string list \<Rightarrow> string list) \<Rightarrow> int option \<Rightarrow> string
     \<Rightarrow> string list \<times> string list \<times> real \<Rightarrow> string list \<times> string list \<times> real" where
  "producer_step enum song_year producer st =
     (case st of
        (all_subgenres, all_primaries, total_confidence) \<Rightarrow>
          (case get_producer_subgenres enum producer song_year of
             None \<Rightarrow> st
           | Some sg \<Rightarrow>
               (all_subgenres @ subgenres sg, all_primaries @ [sig_primary sg],
                total_confidence + sig_confidence sg)))"

definition analyze_producer_contribution ::
    "(string list \<Rightarrow> string list) \<Rightarrow> string list \<Rightarrow> int option \<Rightarrow> producer_contribution option" where
  "analyze_producer_contribution enum song_producers song_year =
     (if song_producers = [] then None
      else
        (case fold (producer_step enum song_year) song_producers ([], [], 0) of
           (all_subgenres, all_primaries, total_confidence) \<Rightarrow>
             if all_subgenres = [] then None
             else Some
               \<lparr>suggested_subgenres = map fst (most_common 3 (counter all_subgenres)),
                pc_confidence = min (total_confidence / real (length song_producers)) 1,
                num_producers =
                  length (filter (\<lambda>p. get_producer_subgenres enum p song_year \<noteq> None)
                                 song_producers),
                pc_source = ''producer_specialization''\<rparr>))"

section \<open>Properties of the rule-based subgenre classifier\<close>

lemma profile_step_credit:
  assumes "lo \<le> hi" and "audio feature = Some v"
  shows "profile_step audio (feature, lo, hi) (m, t) = (m + spec_credit lo hi v, t + 1)"
proof -
  have "spec_credit lo hi v =
      (if lo \<le> v \<and> v \<le> hi then 1
       else if (lo \<le> v \<and> v \<le> hi * 1.2) \<or> (lo * 0.8 \<le> v \<and> v \<le> hi) then 0.5 else 0)"
    using assms(1) by (auto simp: spec_credit_def)
  then show ?thesis using assms(2) by simp
qed

lemma fold_profile_step:
  "wf_profile profile \<Longrightarrow>
   fold (profile_step audio) profile (m, t) =
     (m + spec_credits audio profile, t + length (spec_checked audio profile))"
proof (induction profile arbitrary: m t)
  case Nil
  show ?case by (simp add: spec_credits_def spec_checked_def)
next
  case (Cons a profile)
  obtain feature lo hi where a: "a = (feature, lo, hi)" by (cases a) auto
  from Cons.prems a have wf: "lo \<le> hi" "wf_profile profile"
    by (simp_all add: wf_profile_def)
  show ?case
  proof (cases "audio feature")
    case None
    then show ?thesis using Cons.IH [OF wf(2)] a
      by (simp add: spec_credits_def spec_checked_def)
  next
    case (Some v)
    show ?thesis
      using Cons.IH [OF wf(2)] Some a profile_step_credit [of lo hi audio feature v m t] wf(1)
      by (simp add: spec_credits_def spec_checked_def del: profile_step.simps)
  qed
qed

lemma spec_credit_range: "0 \<le> spec_credit lo hi v \<and> spec_credit lo hi v \<le> 1"
  by (simp add: spec_credit_def)

lemma spec_credits_range:
  "0 \<le> spec_credits audio profile
   \<and> spec_credits audio profile \<le> real (length (spec_checked audio profile))"
proof (induction profile)
  case Nil
  show ?case by (simp add: spec_credits_def spec_checked_def)
next
  case (Cons a profile)
  obtain feature lo hi where a: "a = (feature, lo, hi)" by (cases a) auto
  show ?case
  proof (cases "audio feature")
    case None
    then show ?thesis using Cons a by (simp add: spec_credits_def spec_checked_def)
  next
    case (Some v)
    then show ?thesis
      using Cons a spec_credit_range [of lo hi v]
      by (simp add: spec_credits_def spec_checked_def)
  qed
qed

lemma calculate_profile_match_eq:
  "wf_profile profile \<Longrightarrow>
   calculate_profile_match audio profile =
     (if length (spec_checked audio profile) > 0
      then spec_credits audio profile / real (length (spec_checked audio profile)) else 0)"
  by (simp add: calculate_profile_match_def fold_profile_step)

text \<open>
  The bounds of the loop state hold for every profile, well formed or not: each checked
  feature adds at most one credit.
\<close>

lemma fold_profile_step_bounds:
  "0 \<le> m \<Longrightarrow> m \<le> real t \<Longrightarrow>
   0 \<le> fst (fold (profile_step audio) profile (m, t))
   \<and> fst (fold (profile_step audio) profile (m, t))
       \<le> real (snd (fold (profile_step audio) profile (m, t)))"
proof (induction profile arbitrary: m t)
  case Nil
  then show ?case by simp
next
  case (Cons a profile)
  obtain feature lo hi where a: "a = (feature, lo, hi)" by (cases a) auto
  obtain m' t' where st: "profile_step audio a (m, t) = (m', t')"
    by (cases "profile_step audio a (m, t)") auto
  have "0 \<le> m' \<and> m' \<le> real t'"
    using st Cons.prems a by (auto split: option.splits if_splits)
  then show ?case using Cons.IH [of m' t'] st by simp
qed

lemma calculate_profile_match_range:
  "0 \<le> calculate_profile_match audio profile \<and> calculate_profile_match audio profile \<le> 1"
proof -
  obtain m t where f: "fold (profile_step audio) profile (0, 0) = (m, t)"
    by (cases "fold (profile_step audio) profile (0, 0)") auto
  have "0 \<le> m \<and> m \<le> real t"
    using fold_profile_step_bounds [of 0 0 audio profile] f by simp
  then show ?thesis
    by (simp add: calculate_profile_match_def f divide_le_eq)
qed


lemma snd_fold_profile_step:
  "snd (fold (profile_step audio) profile (m, t)) = t + length (spec_checked audio profile)"
proof (induction profile arbitrary: m t)
  case Nil
  show ?case by (simp add: spec_checked_def)
next
  case (Cons a profile)
  obtain feature lo hi where a: "a = (feature, lo, hi)" by (cases a) auto
  show ?case
    using Cons [of _ "Suc t"] Cons [of _ t] a
    by (auto simp: spec_checked_def split: option.splits)
qed

lemma fold_profile_step_filter:
  "fold (profile_step audio) (spec_checked audio profile) st = fold (profile_step audio) profile st"
proof (induction profile arbitrary: st)
  case Nil
  show ?case by (simp add: spec_checked_def)
next
  case (Cons a profile)
  obtain feature lo hi where a: "a = (feature, lo, hi)" by (cases a) auto
  obtain m t where st: "st = (m, t)" by (cases st) auto
  show ?case
  proof (cases "audio feature")
    case None
    then show ?thesis using Cons [of st] a st by (simp add: spec_checked_def)
  next
    case (Some v)
    then show ?thesis using Cons a st by (simp add: spec_checked_def)
  qed
qed

lemma calculate_profile_match_none_present:
  assumes "\<forall>(feature, r) \<in> set profile. audio feature = None"
  shows "calculate_profile_match audio profile = 0"
proof -
  have "spec_checked audio profile = []"
    using assms by (auto simp: spec_checked_def filter_empty_conv)
  then have z: "snd (fold (profile_step audio) profile (0, 0)) = 0"
    by (simp add: snd_fold_profile_step)
  obtain m t where f: "fold (profile_step audio) profile (0, 0) = (m, t)"
    by (cases "fold (profile_step audio) profile (0, 0)") auto
  with z have "t = 0" by simp
  then show ?thesis
    by (simp add: calculate_profile_match_def f)
qed

lemma fold_rules_step_zero:
  assumes "\<forall>(subgenre, profile) \<in> set candidates. calculate_profile_match audio profile = 0"
  shows "fold (rules_step audio) candidates (None, 0) = (None, 0)"
  using assms by (induction candidates) auto

lemma classify_with_rules_empty:
  "classify_with_rules table primary Map.empty = (None, 0)"
proof (cases "map_of table primary")
  case None
  then show ?thesis by (simp add: classify_with_rules_def)
next
  case (Some candidates)
  have "\<forall>(subgenre, profile) \<in> set candidates. calculate_profile_match Map.empty profile = 0"
    by (auto intro!: calculate_profile_match_none_present)
  then have "fold (rules_step Map.empty) candidates (None, 0) = (None, 0)"
    by (rule fold_rules_step_zero)
  then show ?thesis using Some by (simp add: classify_with_rules_def)
qed

text \<open>
  C10. \<open>_calculate_profile_match\<close> is total and its result lies in [0,1]. Features of the
  profile that are absent from the audio-feature dictionary are skipped: the denominator
  is the number of profile features present in the dictionary, and dropping the absent
  ones from the profile does not change the score. When no feature of the profile is
  present the result is 0 (no division by zero), so rule-based classification on an empty
  feature dictionary yields score 0 and no match.
\<close>

theorem calculate_profile_match_total_bounded:
  "0 \<le> calculate_profile_match audio profile
   \<and> calculate_profile_match audio profile \<le> 1
   \<and> snd (profile_loop audio profile) = length (spec_checked audio profile)
   \<and> calculate_profile_match audio profile
       = (if length (spec_checked audio profile) > 0
          then fst (profile_loop audio profile) / real (length (spec_checked audio profile))
          else 0)
   \<and> calculate_profile_match audio (spec_checked audio profile)
       = calculate_profile_match audio profile
   \<and> ((\<forall>(feature, r) \<in> set profile. audio feature = None)
        \<longrightarrow> calculate_profile_match audio profile = 0)
   \<and> calculate_profile_match Map.empty profile = 0
   \<and> classify_with_rules table primary Map.empty = (None, 0)"
proof -
  have len: "snd (profile_loop audio profile) = length (spec_checked audio profile)"
    by (simp add: profile_loop_def snd_fold_profile_step)
  have eq: "calculate_profile_match audio profile
       = (if length (spec_checked audio profile) > 0
          then fst (profile_loop audio profile) / real (length (spec_checked audio profile))
          else 0)"
  proof -
    obtain m t where f: "fold (profile_step audio) profile (0, 0) = (m, t)"
      by (cases "fold (profile_step audio) profile (0, 0)") auto
    have "t = length (spec_checked audio profile)"
      using len f by (simp add: profile_loop_def)
    then show ?thesis
      by (simp add: calculate_profile_match_def profile_loop_def f)
  qed
  have flt: "calculate_profile_match audio (spec_checked audio profile)
       = calculate_profile_match audio profile"
    by (simp add: calculate_profile_match_def fold_profile_step_filter)
  have emp: "calculate_profile_match Map.empty profile = 0"
    by (auto intro!: calculate_profile_match_none_present)
  have lo: "0 \<le> calculate_profile_match audio profile"
    and hi: "calculate_profile_match audio profile \<le> 1"
    using calculate_profile_match_range [of audio profile] by simp_all
  have np: "(\<forall>(feature, r) \<in> set profile. audio feature = None)
        \<longrightarrow> calculate_profile_match audio profile = 0"
    by (rule impI) (rule calculate_profile_match_none_present)
  show ?thesis
    by (rule conjI [OF lo], rule conjI [OF hi], rule conjI [OF len], rule conjI [OF eq],
        rule conjI [OF flt], rule conjI [OF np], rule conjI [OF emp],
        rule classify_with_rules_empty)
qed

theorem calculate_profile_match_total_bounded_witness:
  "[''energy'' \<mapsto> 0.7 :: real] ''tempo'' = None
   \<and> [''energy'' \<mapsto> 0.7 :: real] ''instrumentalness'' = None
   \<and> calculate_profile_match [''energy'' \<mapsto> 0.7]
        [(''tempo'', 200, 350), (''instrumentalness'', 0.5, 1.0)] = 0
   \<and> calculate_profile_match [''energy'' \<mapsto> 0.7] [(''energy'', 0.6, 0.9)] = 1"
proof -
  have h: "\<forall>(feature, r) \<in> set [(''tempo'', 200 :: real, 350 :: real), (''instrumentalness'', 0.5, 1.0)].
       [''energy'' \<mapsto> 0.7 :: real] feature = None"
    by simp
  have one: "calculate_profile_match [''energy'' \<mapsto> 0.7] [(''energy'', 0.6, 0.9)] = 1"
    by (simp add: calculate_profile_match_def)
  have "(\<forall>(feature, r) \<in> set [(''tempo'', 200 :: real, 350 :: real), (''instrumentalness'', 0.5, 1.0)].
       [''energy'' \<mapsto> 0.7 :: real] feature = None)
     \<longrightarrow> calculate_profile_match [''energy'' \<mapsto> 0.7]
        [(''tempo'', 200, 350), (''instrumentalness'', 0.5, 1.0)] = 0"
    by (rule calculate_profile_match_total_bounded
        [of "[''energy'' \<mapsto> 0.7]" "[(''tempo'', 200, 350), (''instrumentalness'', 0.5, 1.0)]",
         THEN conjunct2, THEN conjunct2, THEN conjunct2, THEN conjunct2, THEN conjunct2,
         THEN conjunct1])
  then have zero: "calculate_profile_match [''energy'' \<mapsto> 0.7]
        [(''tempo'', 200, 350), (''instrumentalness'', 0.5, 1.0)] = 0"
    using h by (rule mp)
  have a1: "[''energy'' \<mapsto> 0.7 :: real] ''tempo'' = None" by simp
  have a2: "[''energy'' \<mapsto> 0.7 :: real] ''instrumentalness'' = None" by simp
  show ?thesis
    by (rule conjI [OF a1], rule conjI [OF a2], rule conjI [OF zero one])
qed

lemma fold_max_ge: "(b::real) \<le> fold max xs b"
proof (induction xs arbitrary: b)
  case Nil
  show ?case by simp
next
  case (Cons x xs)
  have "b \<le> max x b" by simp
  also have "\<dots> \<le> fold max xs (max x b)" by (rule Cons)
  finally show ?case by simp
qed

lemma fold_rules_step:
  "fold (rules_step audio) cands (bm, bs) =
     (if fold max (map (\<lambda>(sg, p). calculate_profile_match audio p) cands) bs > bs
      then map_option fst
             (find (\<lambda>(sg, p). calculate_profile_match audio p
                      = fold max (map (\<lambda>(sg, p). calculate_profile_match audio p) cands) bs) cands)
      else bm,
      fold max (map (\<lambda>(sg, p). calculate_profile_match audio p) cands) bs)"
proof (induction cands arbitrary: bm bs)
  case Nil
  show ?case by simp
next
  case (Cons a cands)
  obtain sg p where a: "a = (sg, p)" by (cases a) auto
  let ?sc = "\<lambda>(sg, p). calculate_profile_match audio p"
  let ?s = "calculate_profile_match audio p"
  show ?case
  proof (cases "?s > bs")
    case True
    have mx: "max ?s bs = ?s" using True by simp
    have ge: "?s \<le> fold max (map ?sc cands) ?s" by (rule fold_max_ge)
    show ?thesis
      using Cons [of "Some sg" ?s] True ge
      by (auto simp: a mx)
  next
    case False
    have mx: "max ?s bs = bs" using False by simp
    have ge: "bs \<le> fold max (map ?sc cands) bs" by (rule fold_max_ge)
    show ?thesis
      using Cons [of bm bs] False ge
      by (auto simp: a mx)
  qed
qed

lemma classify_with_rules_spec:
  "classify_with_rules table primary audio =
     (case map_of table primary of
        None \<Rightarrow> (None, 0)
      | Some candidates \<Rightarrow>
          if spec_best_score audio candidates \<ge> 0.6
          then (spec_best_match audio candidates, spec_best_score audio candidates)
          else (None, spec_best_score audio candidates))"
  by (simp add: classify_with_rules_def fold_rules_step spec_best_score_def spec_best_match_def
           split: option.splits)

text \<open>
  C8. For every rule profile whose declared ranges are well formed (min not above max) and
  every feature dictionary, the rule-based match score equals credits divided by features
  checked, where a checked feature earns 1.0 inside its declared range (bounds included),
  0.5 within 20 percent outside it and 0 otherwise. \<open>classify_with_rules\<close> picks the
  highest-scoring candidate (the first one in table order on a tie) and accepts it only
  when its score is at least 0.6; otherwise it returns no subgenre.
\<close>

theorem rule_score_and_acceptance:
  "(wf_profile profile \<longrightarrow> calculate_profile_match audio profile = spec_score audio profile)
   \<and> classify_with_rules table primary audio =
       (case map_of table primary of
          None \<Rightarrow> (None, 0)
        | Some candidates \<Rightarrow>
            if spec_best_score audio candidates \<ge> 0.6
            then (spec_best_match audio candidates, spec_best_score audio candidates)
            else (None, spec_best_score audio candidates))
   \<and> (\<forall>sg sc. classify_with_rules table primary audio = (Some sg, sc) \<longrightarrow> sc \<ge> 0.6)"
proof -
  have a: "wf_profile profile \<longrightarrow> calculate_profile_match audio profile = spec_score audio profile"
    by (simp add: calculate_profile_match_eq spec_score_def)
  have c: "\<forall>sg sc. classify_with_rules table primary audio = (Some sg, sc) \<longrightarrow> sc \<ge> 0.6"
    by (auto simp: classify_with_rules_spec split: option.splits if_splits)
  show ?thesis
    by (rule conjI [OF a], rule conjI [OF classify_with_rules_spec c])
qed

theorem rule_score_and_acceptance_witness:
  "wf_profile [(''acousticness'', 0.4, 0.8), (''energy'', 0.3, 0.6)]
   \<and> spec_score [''acousticness'' \<mapsto> 0.5, ''energy'' \<mapsto> 0.7]
        [(''acousticness'', 0.4, 0.8), (''energy'', 0.3, 0.6)] = 3 / 4
   \<and> classify_with_rules RULE_BASED_SUBGENRES ''jazz''
        [''acousticness'' \<mapsto> 0.5, ''energy'' \<mapsto> 0.7] = (Some ''jazz-fusion'', 1)
   \<and> (0.6 :: real) \<le> 1"
proof -
  let ?A = "[''acousticness'' \<mapsto> 0.5 :: real, ''energy'' \<mapsto> 0.7]"
  let ?P = "[(''acousticness'', 0.4 :: real, 0.8 :: real), (''energy'', 0.3, 0.6)]"
  have wf: "wf_profile ?P" by (simp add: wf_profile_def)
  have sc: "calculate_profile_match ?A ?P = 3 / 4"
    by (simp add: calculate_profile_match_def)
  have "calculate_profile_match ?A ?P = spec_score ?A ?P"
    using wf by (rule rule_score_and_acceptance [of ?P ?A, THEN conjunct1, THEN mp])
  then have sp: "spec_score ?A ?P = 3 / 4" using sc by simp
  have cl: "classify_with_rules RULE_BASED_SUBGENRES ''jazz'' ?A = (Some ''jazz-fusion'', 1)"
    by (simp add: classify_with_rules_def RULE_BASED_SUBGENRES_def calculate_profile_match_def)
  have ge: "(0.6 :: real) \<le> 1"
    using cl
    by (rule rule_score_and_acceptance
          [of _ ?A RULE_BASED_SUBGENRES "''jazz''",
           THEN conjunct2, THEN conjunct2, THEN spec, THEN spec, THEN mp])
  show ?thesis
    by (rule conjI [OF wf], rule conjI [OF sp], rule conjI [OF cl ge])
qed

lemma fold_max_mem: "fold max xs (b::real) = b \<or> fold max xs b \<in> set xs"
proof (induction xs arbitrary: b)
  case Nil
  show ?case by simp
next
  case (Cons x xs)
  show ?case using Cons [of "max x b"] by (auto simp: max_def split: if_splits)
qed

lemma spec_best_match_Some:
  assumes "spec_best_score audio cands > 0"
  shows "\<exists>sg p. (sg, p) \<in> set cands \<and> spec_best_match audio cands = Some sg"
proof -
  let ?sc = "\<lambda>(sg, p). calculate_profile_match audio p"
  let ?m = "spec_best_score audio cands"
  have "?m = 0 \<or> ?m \<in> set (map ?sc cands)"
    unfolding spec_best_score_def by (rule fold_max_mem)
  with assms have "?m \<in> set (map ?sc cands)" by simp
  then obtain x where x: "x \<in> set cands" "?sc x = ?m" by auto
  let ?P = "\<lambda>(subgenre, profile). calculate_profile_match audio profile = ?m"
  have "?P x" using x(2) by (cases x) simp
  with x(1) have "find ?P cands \<noteq> None"
    unfolding find_None_iff by blast
  then obtain y where y: "find ?P cands = Some y" by blast
  then have "y \<in> set cands" by (metis find_Some_iff nth_mem)
  moreover have "spec_best_match audio cands = Some (fst y)"
    using assms y by (simp add: spec_best_match_def)
  ultimately have "(fst y, snd y) \<in> set cands \<and> spec_best_match audio cands = Some (fst y)"
    by simp
  then show ?thesis by blast
qed

lemma classify_with_rules_truthy:
  assumes "\<And>cands sg p. map_of table primary = Some cands \<Longrightarrow> (sg, p) \<in> set cands \<Longrightarrow> sg \<noteq> []"
  shows "truthy (fst (classify_with_rules table primary audio))
         = (snd (classify_with_rules table primary audio) \<ge> 0.6)"
proof (cases "map_of table primary")
  case None
  then show ?thesis by (simp add: classify_with_rules_spec)
next
  case (Some cands)
  show ?thesis
  proof (cases "spec_best_score audio cands \<ge> 0.6")
    case True
    then have "spec_best_score audio cands > 0" by simp
    then obtain sg p where sg: "(sg, p) \<in> set cands" "spec_best_match audio cands = Some sg"
      using spec_best_match_Some by blast
    have "sg \<noteq> []" using assms [OF Some sg(1)] .
    then show ?thesis using True Some sg(2) by (simp add: classify_with_rules_spec)
  next
    case False
    then show ?thesis using Some by (simp add: classify_with_rules_spec)
  qed
qed

lemma jazz_names_nonempty:
  "map_of RULE_BASED_SUBGENRES ''jazz'' = Some cands \<Longrightarrow> (sg, p) \<in> set cands \<Longrightarrow> sg \<noteq> []"
  by (auto simp: RULE_BASED_SUBGENRES_def)

lemma classify_auto_no_model:
  assumes "models primary = None"
  shows "classify models table primary audio ''auto'' =
     (if truthy (fst (classify_with_rules table primary audio))
      then \<lparr>subgenre = fst (classify_with_rules table primary audio),
            confidence = snd (classify_with_rules table primary audio),
            res_method = ''rules'', res_primary_genre = primary\<rparr>
      else \<lparr>subgenre = None, confidence = 0, res_method = ''none'', res_primary_genre = primary\<rparr>)"
  using assms by (simp add: classify_def classify_with_ml_def Let_def)

lemma classify_method_range:
  "res_method (classify models table primary audio meth) \<in> {''ml'', ''rules'', ''none''}"
  by (simp add: classify_def Let_def)

text \<open>
  C7 as stated fails: with no jazz model and an empty feature dictionary the rule table is
  consulted, no profile reaches the acceptance threshold, and the method is \<open>none\<close>, not
  \<open>rules\<close>.
\<close>

theorem classify_jazz_not_always_rules:
  "res_method (classify Map.empty RULE_BASED_SUBGENRES ''jazz'' Map.empty ''auto'') = ''none''"
  by (simp add: classify_def classify_with_ml_def classify_with_rules_empty)

text \<open>
  C7, amended. \<open>classify\<close> is total: it returns a result for every primary genre, feature
  dictionary and method, and its method is one of \<open>ml\<close>, \<open>rules\<close>, \<open>none\<close>. In mode
  \<open>auto\<close>, when no trained model exists for the primary genre it falls through to the rule
  table: the result is the rule match with method \<open>rules\<close> when the rules accept a
  subgenre, and \<open>subgenre = None, confidence = 0.0, res_method = none\<close> otherwise. For
  \<open>jazz\<close> the rules accept exactly when the best profile score is at least 0.6; for
  \<open>unknown_genre\<close>, which has neither model nor rule table, the result is always the
  \<open>none\<close> result.
\<close>

theorem classify_fallback:
  "(models primary = None \<longrightarrow>
      classify models table primary audio ''auto'' =
        (if truthy (fst (classify_with_rules table primary audio))
         then \<lparr>subgenre = fst (classify_with_rules table primary audio),
               confidence = snd (classify_with_rules table primary audio),
               res_method = ''rules'', res_primary_genre = primary\<rparr>
         else \<lparr>subgenre = None, confidence = 0, res_method = ''none'',
               res_primary_genre = primary\<rparr>))
   \<and> (models ''jazz'' = None \<longrightarrow>
        (res_method (classify models RULE_BASED_SUBGENRES ''jazz'' audio ''auto'') = ''rules'')
          = (snd (classify_with_rules RULE_BASED_SUBGENRES ''jazz'' audio) \<ge> 0.6)
        \<and> (res_method (classify models RULE_BASED_SUBGENRES ''jazz'' audio ''auto'') = ''none'')
          = (snd (classify_with_rules RULE_BASED_SUBGENRES ''jazz'' audio) < 0.6))
   \<and> (models ''unknown_genre'' = None \<longrightarrow>
        classify models RULE_BASED_SUBGENRES ''unknown_genre'' audio ''auto'' =
          \<lparr>subgenre = None, confidence = 0, res_method = ''none'',
           res_primary_genre = ''unknown_genre''\<rparr>)
   \<and> res_method (classify models table primary audio meth) \<in> {''ml'', ''rules'', ''none''}"
proof -
  have a: "models primary = None \<longrightarrow>
      classify models table primary audio ''auto'' =
        (if truthy (fst (classify_with_rules table primary audio))
         then \<lparr>subgenre = fst (classify_with_rules table primary audio),
               confidence = snd (classify_with_rules table primary audio),
               res_method = ''rules'', res_primary_genre = primary\<rparr>
         else \<lparr>subgenre = None, confidence = 0, res_method = ''none'',
               res_primary_genre = primary\<rparr>)"
    by (rule impI) (rule classify_auto_no_model)
  have tj: "truthy (fst (classify_with_rules RULE_BASED_SUBGENRES ''jazz'' audio))
         = (snd (classify_with_rules RULE_BASED_SUBGENRES ''jazz'' audio) \<ge> 0.6)"
    by (rule classify_with_rules_truthy) (rule jazz_names_nonempty)
  have b: "models ''jazz'' = None \<longrightarrow>
        (res_method (classify models RULE_BASED_SUBGENRES ''jazz'' audio ''auto'') = ''rules'')
          = (snd (classify_with_rules RULE_BASED_SUBGENRES ''jazz'' audio) \<ge> 0.6)
        \<and> (res_method (classify models RULE_BASED_SUBGENRES ''jazz'' audio ''auto'') = ''none'')
          = (snd (classify_with_rules RULE_BASED_SUBGENRES ''jazz'' audio) < 0.6)"
  proof (rule impI)
    assume m: "models ''jazz'' = None"
    show "(res_method (classify models RULE_BASED_SUBGENRES ''jazz'' audio ''auto'') = ''rules'')
          = (snd (classify_with_rules RULE_BASED_SUBGENRES ''jazz'' audio) \<ge> 0.6)
        \<and> (res_method (classify models RULE_BASED_SUBGENRES ''jazz'' audio ''auto'') = ''none'')
          = (snd (classify_with_rules RULE_BASED_SUBGENRES ''jazz'' audio) < 0.6)"
      by (simp add: classify_auto_no_model [of models "''jazz''", OF m] tj not_le)
  qed
  have nr: "classify_with_rules RULE_BASED_SUBGENRES ''unknown_genre'' audio = (None, 0)"
    by (simp add: classify_with_rules_def RULE_BASED_SUBGENRES_def)
  have c: "models ''unknown_genre'' = None \<longrightarrow>
        classify models RULE_BASED_SUBGENRES ''unknown_genre'' audio ''auto'' =
          \<lparr>subgenre = None, confidence = 0, res_method = ''none'',
           res_primary_genre = ''unknown_genre''\<rparr>"
  proof (rule impI)
    assume m: "models ''unknown_genre'' = None"
    show "classify models RULE_BASED_SUBGENRES ''unknown_genre'' audio ''auto'' =
          \<lparr>subgenre = None, confidence = 0, res_method = ''none'',
           res_primary_genre = ''unknown_genre''\<rparr>"
      by (simp add: classify_auto_no_model [of models "''unknown_genre''", OF m] nr)
  qed
  show ?thesis
    by (rule conjI [OF a], rule conjI [OF b], rule conjI [OF c classify_method_range])
qed

theorem classify_fallback_witness:
  "(Map.empty :: string \<rightharpoonup> model_package) ''jazz'' = None
   \<and> snd (classify_with_rules RULE_BASED_SUBGENRES ''jazz''
             [''acousticness'' \<mapsto> 0.5, ''energy'' \<mapsto> 0.7]) \<ge> 0.6
   \<and> res_method (classify Map.empty RULE_BASED_SUBGENRES ''jazz''
               [''acousticness'' \<mapsto> 0.5, ''energy'' \<mapsto> 0.7] ''auto'') = ''rules''
   \<and> (Map.empty :: string \<rightharpoonup> model_package) ''unknown_genre'' = None
   \<and> classify Map.empty RULE_BASED_SUBGENRES ''unknown_genre''
        [''acousticness'' \<mapsto> 0.5, ''energy'' \<mapsto> 0.7] ''auto''
      = \<lparr>subgenre = None, confidence = 0, res_method = ''none'',
         res_primary_genre = ''unknown_genre''\<rparr>"
proof -
  let ?A = "[''acousticness'' \<mapsto> 0.5 :: real, ''energy'' \<mapsto> 0.7]"
  let ?M = "Map.empty :: string \<rightharpoonup> model_package"
  have m1: "?M ''jazz'' = None" by simp
  have m2: "?M ''unknown_genre'' = None" by simp
  have cl: "classify_with_rules RULE_BASED_SUBGENRES ''jazz'' ?A = (Some ''jazz-fusion'', 1)"
    by (simp add: classify_with_rules_def RULE_BASED_SUBGENRES_def calculate_profile_match_def)
  have ge: "snd (classify_with_rules RULE_BASED_SUBGENRES ''jazz'' ?A) \<ge> 0.6"
    by (subst cl) simp
  note t = classify_fallback [of ?M "''jazz''" RULE_BASED_SUBGENRES ?A "''auto''"]
  have "(res_method (classify ?M RULE_BASED_SUBGENRES ''jazz'' ?A ''auto'') = ''rules'')
          = (snd (classify_with_rules RULE_BASED_SUBGENRES ''jazz'' ?A) \<ge> 0.6)"
    using m1 by (rule t [THEN conjunct2, THEN conjunct1, THEN mp, THEN conjunct1])
  then have r: "res_method (classify ?M RULE_BASED_SUBGENRES ''jazz'' ?A ''auto'') = ''rules''"
    using ge by simp
  have u: "classify ?M RULE_BASED_SUBGENRES ''unknown_genre'' ?A ''auto''
      = \<lparr>subgenre = None, confidence = 0, res_method = ''none'',
         res_primary_genre = ''unknown_genre''\<rparr>"
    using m2 by (rule t [THEN conjunct2, THEN conjunct2, THEN conjunct1, THEN mp])
  show ?thesis
    by (rule conjI [OF m1], rule conjI [OF ge], rule conjI [OF r], rule conjI [OF m2 u])
qed

section \<open>Properties of title cleaning, query generation and matching\<close>

text \<open>Character tests on the bits of a character, for evaluation.\<close>

lemma lower_char_code [code]:
  "lower_char (Char b0 b1 b2 b3 b4 b5 b6 b7) =
     (if \<not> b7 \<and> b6 \<and> \<not> b5 \<and> (b0 \<or> b1 \<or> b2 \<or> b3 \<or> b4) \<and> \<not> (b4 \<and> b3 \<and> (b2 \<or> (b1 \<and> b0)))
      then Char b0 b1 b2 b3 b4 True b6 b7 else Char b0 b1 b2 b3 b4 b5 b6 b7)"
  by (cases b0; cases b1; cases b2; cases b3; cases b4; cases b5; cases b6; cases b7)
     (simp_all add: lower_char_def)

lemma is_space_code [code]:
  "is_space (Char b0 b1 b2 b3 b4 b5 b6 b7) =
     (\<not> b7 \<and> \<not> b6 \<and>
      ((\<not> b5 \<and> \<not> b4 \<and> b3 \<and> ((\<not> b2 \<and> (b0 \<or> b1)) \<or> (b2 \<and> \<not> b1)))
       \<or> (\<not> b5 \<and> b4 \<and> b3 \<and> b2)
       \<or> (b5 \<and> \<not> b4 \<and> \<not> b3 \<and> \<not> b2 \<and> \<not> b1 \<and> \<not> b0)))"
  by (cases b0; cases b1; cases b2; cases b3; cases b4; cases b5; cases b6; cases b7)
     (simp_all add: is_space_def)

text \<open>
  C3. The code at the scenario input: no removal pattern matches the parenthetical
  \<open>(Spider-Man: Into the Spider-Verse)\<close>, so the cleaned title is the title itself. The
  first candidate is the uncleaned title followed by the main artist, and four of the
  five candidates contain the parenthetical.
\<close>

theorem generate_search_queries_sunflower:
  "generate_search_queries ''Sunflower (Spider-Man: Into the Spider-Verse)''
     ''Post Malone & Swae Lee''
   = [''Sunflower (Spider-Man: Into the Spider-Verse) Post Malone'',
      ''Sunflower (Spider-Man: Into the Spider-Verse) Post Malone & Swae Lee'',
      ''Post Malone Sunflower (Spider-Man: Into the Spider-Verse)'',
      ''Sunflower (Spider-Man: Into the Spider-Verse)'',
      ''Sunflower Spider Man Into the Spider Verse Post Malone'']"
  by code_simp

lemma best_title_similarity_gated:
  assumes "artist_similarity ratio genius_artist original_artist < 85"
  shows "best_title_similarity ratio genius_title genius_artist original_title original_artist
         = max (title_similarity ratio genius_title original_title)
               (max (title_similarity_no_feat ratio genius_title original_title)
                    (title_similarity_no_article ratio genius_title original_title))"
  using assms by (auto simp: best_title_similarity_def Let_def max_def)

lemma holla_norm: "title_norm ''Holla Back'' = ''holla back''"
  by code_simp

lemma youngn_norm: "title_norm ''Young'n (Holla Back)'' = ''young'n (holla back)''"
  by code_simp

lemma holla_variants:
  "remove_feat ''holla back'' = ''holla back''"
  "remove_articles ''holla back'' = ''holla back''"
  "remove_all_parentheticals ''holla back'' = ''holla back''"
  by code_simp+

lemma youngn_variants:
  "remove_feat ''young'n (holla back)'' = ''young'n (holla back)''"
  "remove_articles ''young'n (holla back)'' = ''young'n (holla back)''"
  "remove_all_parentheticals ''young'n (holla back)'' = ''young'n''"
  by code_simp+

lemma holla_bounds:
  "lcs_ratio_bound ''holla back'' ''young'n (holla back)'' = 67"
  "lcs_ratio_bound ''holla back'' ''young'n'' = 12"
  by code_simp+

lemma holla_title_bounds:
  assumes "ratio_within_lcs ratio"
  shows "title_similarity ratio ''Holla Back'' ''Young'n (Holla Back)'' \<le> 67"
    and "title_similarity_no_feat ratio ''Holla Back'' ''Young'n (Holla Back)'' \<le> 67"
    and "title_similarity_no_article ratio ''Holla Back'' ''Young'n (Holla Back)'' \<le> 67"
    and "title_similarity_no_parens ratio ''Holla Back'' ''Young'n (Holla Back)'' \<le> 12"
proof -
  have a: "ratio ''holla back'' ''young'n (holla back)'' \<le> 67"
    using assms [unfolded ratio_within_lcs_def, rule_format,
                 of "''holla back''" "''young'n (holla back)''"]
    by (simp add: holla_bounds)
  have b: "ratio ''holla back'' ''young'n'' \<le> 12"
    using assms [unfolded ratio_within_lcs_def, rule_format, of "''holla back''" "''young'n''"]
    by (simp add: holla_bounds)
  show "title_similarity ratio ''Holla Back'' ''Young'n (Holla Back)'' \<le> 67"
    by (simp only: title_similarity_def holla_norm youngn_norm a)
  show "title_similarity_no_feat ratio ''Holla Back'' ''Young'n (Holla Back)'' \<le> 67"
    by (simp only: title_similarity_no_feat_def holla_norm youngn_norm holla_variants
                   youngn_variants a)
  show "title_similarity_no_article ratio ''Holla Back'' ''Young'n (Holla Back)'' \<le> 67"
    by (simp only: title_similarity_no_article_def holla_norm youngn_norm holla_variants
                   youngn_variants a)
  show "title_similarity_no_parens ratio ''Holla Back'' ''Young'n (Holla Back)'' \<le> 12"
    by (simp only: title_similarity_no_parens_def holla_norm youngn_norm holla_variants
                   youngn_variants b)
qed

lemma holla_best_bound:
  assumes "ratio_within_lcs ratio"
  shows "best_title_similarity ratio ''Holla Back'' ''Wrong Artist'' ''Young'n (Holla Back)''
           ''Right Artist'' \<le> 67"
  using holla_title_bounds [OF assms]
  by (auto simp: best_title_similarity_def Let_def max_def)

text \<open>
  C5. In \<open>_is_good_match\<close>, whenever the artist similarity is below 85 the
  all-parentheticals-removed variant is excluded: the best title similarity is the
  maximum of the as-is, featuring-removed and article-removed variants. In particular,
  for every similarity function bounded by the longest-common-subsequence ratio (as
  \<open>fuzz.ratio\<close> is), \<open>is_good_match("Holla Back", "Wrong Artist", "Young'n (Holla Back)",
  "Right Artist")\<close> is False.
\<close>

theorem parenthetical_variant_gated:
  "(artist_similarity ratio genius_artist original_artist < 85 \<longrightarrow>
      best_title_similarity ratio genius_title genius_artist original_title original_artist
        = max (title_similarity ratio genius_title original_title)
              (max (title_similarity_no_feat ratio genius_title original_title)
                   (title_similarity_no_article ratio genius_title original_title)))
   \<and> (ratio_within_lcs ratio \<longrightarrow>
        \<not> is_good_match (Some ratio) ''Holla Back'' ''Wrong Artist'' ''Young'n (Holla Back)''
            ''Right Artist'')"
proof (rule conjI)
  show "artist_similarity ratio genius_artist original_artist < 85 \<longrightarrow>
      best_title_similarity ratio genius_title genius_artist original_title original_artist
        = max (title_similarity ratio genius_title original_title)
              (max (title_similarity_no_feat ratio genius_title original_title)
                   (title_similarity_no_article ratio genius_title original_title))"
    by (rule impI) (rule best_title_similarity_gated)
next
  show "ratio_within_lcs ratio \<longrightarrow>
        \<not> is_good_match (Some ratio) ''Holla Back'' ''Wrong Artist'' ''Young'n (Holla Back)''
            ''Right Artist''"
  proof (rule impI)
    assume r: "ratio_within_lcs ratio"
    have "best_title_similarity ratio ''Holla Back'' ''Wrong Artist'' ''Young'n (Holla Back)''
           ''Right Artist'' < 70"
      using holla_best_bound [OF r] by simp
    then show "\<not> is_good_match (Some ratio) ''Holla Back'' ''Wrong Artist''
                  ''Young'n (Holla Back)'' ''Right Artist''"
      by (simp add: is_good_match_def Let_def)
  qed
qed

theorem parenthetical_variant_gated_witness:
  "artist_similarity lcs_ratio_bound ''Wrong Artist'' ''Right Artist'' < 85
   \<and> best_title_similarity lcs_ratio_bound ''Holla Back'' ''Wrong Artist''
        ''Young'n (Holla Back)'' ''Right Artist'' = 67
   \<and> ratio_within_lcs lcs_ratio_bound
   \<and> \<not> is_good_match (Some lcs_ratio_bound) ''Holla Back'' ''Wrong Artist''
         ''Young'n (Holla Back)'' ''Right Artist''"
proof -
  note t = parenthetical_variant_gated
             [of lcs_ratio_bound "''Wrong Artist''" "''Right Artist''" "''Holla Back''"
                 "''Young'n (Holla Back)''"]
  have "artist_similarity lcs_ratio_bound ''Wrong Artist'' ''Right Artist'' = 75"
    by code_simp
  then have a: "artist_similarity lcs_ratio_bound ''Wrong Artist'' ''Right Artist'' < 85"
    by simp
  have ts: "title_similarity lcs_ratio_bound ''Holla Back'' ''Young'n (Holla Back)'' = 67"
    by (simp only: title_similarity_def holla_norm youngn_norm holla_bounds)
  have tf: "title_similarity_no_feat lcs_ratio_bound ''Holla Back'' ''Young'n (Holla Back)'' = 67"
    by (simp only: title_similarity_no_feat_def holla_norm youngn_norm holla_variants
                   youngn_variants holla_bounds)
  have ta: "title_similarity_no_article lcs_ratio_bound ''Holla Back'' ''Young'n (Holla Back)'' = 67"
    by (simp only: title_similarity_no_article_def holla_norm youngn_norm holla_variants
                   youngn_variants holla_bounds)
  have "best_title_similarity lcs_ratio_bound ''Holla Back'' ''Wrong Artist''
        ''Young'n (Holla Back)'' ''Right Artist''
      = max (title_similarity lcs_ratio_bound ''Holla Back'' ''Young'n (Holla Back)'')
          (max (title_similarity_no_feat lcs_ratio_bound ''Holla Back'' ''Young'n (Holla Back)'')
               (title_similarity_no_article lcs_ratio_bound ''Holla Back''
                  ''Young'n (Holla Back)''))"
    using a by (rule t [THEN conjunct1, THEN mp])
  then have b: "best_title_similarity lcs_ratio_bound ''Holla Back'' ''Wrong Artist''
        ''Young'n (Holla Back)'' ''Right Artist'' = 67"
    by (simp only: ts tf ta max.idem)
  have r: "ratio_within_lcs lcs_ratio_bound"
    by (simp add: ratio_within_lcs_def)
  have n: "\<not> is_good_match (Some lcs_ratio_bound) ''Holla Back'' ''Wrong Artist''
         ''Young'n (Holla Back)'' ''Right Artist''"
    using r by (rule t [THEN conjunct2, THEN mp])
  show ?thesis
    by (rule conjI [OF a], rule conjI [OF b], rule conjI [OF r n])
qed

lemma empty_variants:
  "remove_feat [] = []" "remove_articles [] = []" "remove_all_parentheticals [] = []"
  by code_simp+

lemma empty_title_best_zero:
  assumes z: "ratio_empty_zero ratio"
    and ne: "a \<noteq> []" "remove_feat a \<noteq> []" "remove_articles a \<noteq> []"
            "remove_all_parentheticals a \<noteq> []"
  shows "ratio [] a = 0 \<and> ratio [] (remove_feat a) = 0 \<and> ratio [] (remove_articles a) = 0
         \<and> ratio [] (remove_all_parentheticals a) = 0
         \<and> ratio a [] = 0 \<and> ratio (remove_feat a) [] = 0 \<and> ratio (remove_articles a) [] = 0
         \<and> ratio (remove_all_parentheticals a) [] = 0"
  using z ne unfolding ratio_empty_zero_def by metis

text \<open>
  C9 as stated fails. Without the fuzzy library the fallback is a substring test, and the
  empty string is a substring of every title. With it, a query title made only of a
  parenthetical is empty once parentheticals are removed and then equals an empty
  candidate title.
\<close>

theorem empty_title_can_match:
  "is_good_match None '''' ''Adele'' ''Hello'' ''Adele''
   \<and> is_good_match (Some fuzz_ratio) '''' ''Adele'' ''(Intro)'' ''Adele''"
  by code_simp

text \<open>
  C9, amended. With the fuzzy library available and a similarity function that scores 0
  for an empty string against a non-empty one (as \<open>fuzz.ratio\<close> does), if one title
  cleans to the empty string (as an empty or whitespace-only title does) while the other
  title is non-empty in each compared variant (as is, featuring removed, article removed,
  parentheticals removed), \<open>is_good_match\<close> returns False, whatever the artists.
\<close>

theorem empty_title_no_match:
  "(ratio_empty_zero ratio \<and> title_norm genius_title = []
      \<and> title_norm original_title \<noteq> []
      \<and> remove_feat (title_norm original_title) \<noteq> []
      \<and> remove_articles (title_norm original_title) \<noteq> []
      \<and> remove_all_parentheticals (title_norm original_title) \<noteq> []
     \<longrightarrow> \<not> is_good_match (Some ratio) genius_title genius_artist original_title original_artist)
   \<and> (ratio_empty_zero ratio \<and> title_norm original_title = []
      \<and> title_norm genius_title \<noteq> []
      \<and> remove_feat (title_norm genius_title) \<noteq> []
      \<and> remove_articles (title_norm genius_title) \<noteq> []
      \<and> remove_all_parentheticals (title_norm genius_title) \<noteq> []
     \<longrightarrow> \<not> is_good_match (Some ratio) genius_title genius_artist original_title original_artist)"
proof (intro conjI impI)
  assume h: "ratio_empty_zero ratio \<and> title_norm genius_title = []
      \<and> title_norm original_title \<noteq> []
      \<and> remove_feat (title_norm original_title) \<noteq> []
      \<and> remove_articles (title_norm original_title) \<noteq> []
      \<and> remove_all_parentheticals (title_norm original_title) \<noteq> []"
  then have z: "ratio [] (title_norm original_title) = 0
       \<and> ratio [] (remove_feat (title_norm original_title)) = 0
       \<and> ratio [] (remove_articles (title_norm original_title)) = 0
       \<and> ratio [] (remove_all_parentheticals (title_norm original_title)) = 0"
    using empty_title_best_zero [of ratio "title_norm original_title"] by simp
  have "best_title_similarity ratio genius_title genius_artist original_title original_artist = 0"
    using h z
    by (simp add: best_title_similarity_def title_similarity_def title_similarity_no_feat_def
          title_similarity_no_article_def title_similarity_no_parens_def empty_variants)
  then show "\<not> is_good_match (Some ratio) genius_title genius_artist original_title
                original_artist"
    by (simp add: is_good_match_def)
next
  assume h: "ratio_empty_zero ratio \<and> title_norm original_title = []
      \<and> title_norm genius_title \<noteq> []
      \<and> remove_feat (title_norm genius_title) \<noteq> []
      \<and> remove_articles (title_norm genius_title) \<noteq> []
      \<and> remove_all_parentheticals (title_norm genius_title) \<noteq> []"
  then have z: "ratio (title_norm genius_title) [] = 0
       \<and> ratio (remove_feat (title_norm genius_title)) [] = 0
       \<and> ratio (remove_articles (title_norm genius_title)) [] = 0
       \<and> ratio (remove_all_parentheticals (title_norm genius_title)) [] = 0"
    using empty_title_best_zero [of ratio "title_norm genius_title"] by simp
  have "best_title_similarity ratio genius_title genius_artist original_title original_artist = 0"
    using h z
    by (simp add: best_title_similarity_def title_similarity_def title_similarity_no_feat_def
          title_similarity_no_article_def title_similarity_no_parens_def empty_variants)
  then show "\<not> is_good_match (Some ratio) genius_title genius_artist original_title
                original_artist"
    by (simp add: is_good_match_def)
qed

lemma fuzz_ratio_empty_zero: "ratio_empty_zero fuzz_ratio"
  by (auto simp: ratio_empty_zero_def fuzz_ratio_def)

lemma blank_norm: "title_norm ''   '' = []" "title_norm '''' = []"
  by code_simp+

lemma hello_norm: "title_norm ''Hello'' = ''hello''"
  by code_simp

lemma hello_variants:
  "remove_feat ''hello'' = ''hello''" "remove_articles ''hello'' = ''hello''"
  "remove_all_parentheticals ''hello'' = ''hello''"
  by code_simp+

theorem empty_title_no_match_witness:
  "ratio_empty_zero fuzz_ratio
   \<and> title_norm ''   '' = [] \<and> title_norm '''' = []
   \<and> title_norm ''Hello'' \<noteq> []
   \<and> remove_feat (title_norm ''Hello'') \<noteq> []
   \<and> remove_articles (title_norm ''Hello'') \<noteq> []
   \<and> remove_all_parentheticals (title_norm ''Hello'') \<noteq> []
   \<and> \<not> is_good_match (Some fuzz_ratio) ''   '' ''Adele'' ''Hello'' ''Adele''
   \<and> \<not> is_good_match (Some fuzz_ratio) ''Hello'' ''Adele'' '''' ''Adele''"
proof -
  have v: "title_norm ''Hello'' \<noteq> []" "remove_feat (title_norm ''Hello'') \<noteq> []"
    "remove_articles (title_norm ''Hello'') \<noteq> []"
    "remove_all_parentheticals (title_norm ''Hello'') \<noteq> []"
    by (simp_all add: hello_norm hello_variants)
  have h1: "ratio_empty_zero fuzz_ratio \<and> title_norm ''   '' = []
      \<and> title_norm ''Hello'' \<noteq> []
      \<and> remove_feat (title_norm ''Hello'') \<noteq> []
      \<and> remove_articles (title_norm ''Hello'') \<noteq> []
      \<and> remove_all_parentheticals (title_norm ''Hello'') \<noteq> []"
    using fuzz_ratio_empty_zero blank_norm(1) v by simp
  have n1: "\<not> is_good_match (Some fuzz_ratio) ''   '' ''Adele'' ''Hello'' ''Adele''"
    using h1
    by (rule empty_title_no_match
          [of fuzz_ratio "''   ''" "''Hello''" "''Adele''" "''Adele''", THEN conjunct1, THEN mp])
  have h2: "ratio_empty_zero fuzz_ratio \<and> title_norm '''' = []
      \<and> title_norm ''Hello'' \<noteq> []
      \<and> remove_feat (title_norm ''Hello'') \<noteq> []
      \<and> remove_articles (title_norm ''Hello'') \<noteq> []
      \<and> remove_all_parentheticals (title_norm ''Hello'') \<noteq> []"
    using fuzz_ratio_empty_zero blank_norm(2) v by simp
  have n2: "\<not> is_good_match (Some fuzz_ratio) ''Hello'' ''Adele'' '''' ''Adele''"
    using h2
    by (rule empty_title_no_match
          [of fuzz_ratio "''Hello''" "''''" "''Adele''" "''Adele''", THEN conjunct2, THEN mp])
  show ?thesis
    by (rule conjI [OF fuzz_ratio_empty_zero], rule conjI [OF blank_norm(1)],
        rule conjI [OF blank_norm(2)], rule conjI [OF v(1)], rule conjI [OF v(2)],
        rule conjI [OF v(3)], rule conjI [OF v(4)], rule conjI [OF n1 n2])
qed

section \<open>Properties of the reasoning engine\<close>

lemma source_weight_pos: "0 < source_weight src"
  by (simp add: source_weight_def source_weights_def)

lemma add_vote_pos:
  assumes "list_all (\<lambda>(k, v). 0 < v) votes" and "0 < w"
  shows "list_all (\<lambda>(k, v). 0 < v) (add_vote g w votes)"
  using assms by (induction votes) (auto simp: add_pos_pos)

lemma add_vote_sum:
  "sum_list (map snd (add_vote g w votes)) = sum_list (map snd votes) + w"
  by (induction votes) auto

lemma add_vote_nonempty: "add_vote g w votes \<noteq> []"
  by (cases votes) (auto split: if_splits)

lemma fold_votes_pos:
  assumes "list_all (\<lambda>(k, v). 0 < v) votes"
    and "list_all (\<lambda>c. 0 < classification_weight c) cs"
  shows "list_all (\<lambda>(k, v). 0 < v)
           (fold (\<lambda>c votes. add_vote (map_to_primary_genre (cls_name c))
                                (classification_weight c) votes) cs votes)"
  using assms by (induction cs arbitrary: votes) (auto simp: add_vote_pos)

lemma fold_votes_nonempty:
  assumes "cs \<noteq> [] \<or> votes \<noteq> []"
  shows "fold (\<lambda>c votes. add_vote (map_to_primary_genre (cls_name c))
                                (classification_weight c) votes) cs votes \<noteq> []"
  using assms by (induction cs arbitrary: votes) (auto simp: add_vote_nonempty)

lemma genre_votes_pos:
  "list_all (\<lambda>c. 0 < classification_weight c) cs \<Longrightarrow> list_all (\<lambda>(k, v). 0 < v) (genre_votes cs)"
  unfolding genre_votes_def by (rule fold_votes_pos) simp_all

lemma genre_votes_nonempty: "cs \<noteq> [] \<Longrightarrow> genre_votes cs \<noteq> []"
  unfolding genre_votes_def by (rule fold_votes_nonempty) simp

lemma argmax_from_mem: "argmax_from best rest \<in> set (best # rest)"
proof (induction rest arbitrary: best)
  case Nil
  show ?case by simp
next
  case (Cons a rest)
  obtain bk bv where b: "best = (bk, bv)" by (cases best) auto
  obtain k v where a: "a = (k, v)" by (cases a) auto
  show ?case using Cons [of "if v > bv then (k, v) else (bk, bv)"] by (auto simp: a b)
qed

lemma pos_member_le_sum:
  fixes votes :: "(string \<times> real) list"
  assumes "list_all (\<lambda>(k, v). 0 < v) votes" and "(k, v) \<in> set votes"
  shows "0 < v \<and> v \<le> sum_list (map snd votes)"
proof -
  have nn: "\<And>x. x \<in> set (map snd votes) \<Longrightarrow> 0 \<le> x"
  proof -
    fix x :: real
    assume "x \<in> set (map snd votes)"
    then obtain k' where "(k', x) \<in> set votes" by auto
    with assms(1) have "0 < x" by (auto simp: list_all_iff)
    then show "0 \<le> x" by simp
  qed
  have "v \<in> set (map snd votes)" using assms(2) by force
  then have "v \<le> sum_list (map snd votes)"
    using nn by (rule member_le_sum_list)
  moreover have "0 < v" using assms by (auto simp: list_all_iff)
  ultimately show ?thesis by simp
qed

lemma engine_classifications:
  "classifications (apply_ari_reasoning_engine enum profile) = classifications profile"
  by (simp add: apply_ari_reasoning_engine_def Let_def split: list.splits prod.splits)

lemma engine_confidence_empty:
  "classifications profile = [] \<Longrightarrow> confidence_score (apply_ari_reasoning_engine enum profile) = 0"
  by (simp add: apply_ari_reasoning_engine_def)

lemma engine_confidence_pos:
  assumes ne: "classifications profile \<noteq> []"
    and w: "list_all (\<lambda>c. 0 < classification_weight c) (classifications profile)"
  shows "0 < confidence_score (apply_ari_reasoning_engine enum profile)
         \<and> confidence_score (apply_ari_reasoning_engine enum profile) \<le> 1"
proof -
  let ?votes = "genre_votes (classifications profile)"
  obtain kv rest where v: "?votes = kv # rest"
    using genre_votes_nonempty [OF ne] by (cases ?votes) auto
  obtain primary pw where am: "argmax_from kv rest = (primary, pw)"
    by (cases "argmax_from kv rest") auto
  have pos: "list_all (\<lambda>(k, v). 0 < v) ?votes" by (rule genre_votes_pos [OF w])
  have "(primary, pw) \<in> set ?votes"
    using argmax_from_mem [of kv rest] am v by simp
  then have b: "0 < pw \<and> pw \<le> sum_list (map snd ?votes)"
    by (rule pos_member_le_sum [OF pos])
  then have t: "0 < sum_list (map snd ?votes)" by linarith
  have "confidence_score (apply_ari_reasoning_engine enum profile)
          = pw / sum_list (map snd ?votes)"
    using ne v am t by (simp add: apply_ari_reasoning_engine_def Let_def)
  then show ?thesis using b t by simp
qed

lemma mk_classification_weight:
  "0 < conf \<Longrightarrow> 0 < classification_weight (mk_classification src cat conf n)"
  by (simp add: classification_weight_def mk_classification_def source_weight_pos)

lemma poll_weights:
  "list_all (\<lambda>c. 0 < classification_weight c) (fst (poll_spotify env a))"
  "list_all (\<lambda>c. 0 < classification_weight c) (fst (poll_chartmetric env a))"
  "list_all (\<lambda>c. 0 < classification_weight c) (fst (poll_lastfm env a))"
  "list_all (\<lambda>c. 0 < classification_weight c) (fst (poll_genius db n))"
  by (auto simp: poll_spotify_def poll_chartmetric_def poll_lastfm_def poll_genius_def
        lastfm_top_genres_def list_all_iff mk_classification_weight split: option.splits)

lemma collect_weights:
  "list_all (\<lambda>c. 0 < classification_weight c) (fst (collect_classifications env db a n))"
proof -
  obtain c1 t1 good where p1: "poll_spotify env a = (c1, t1, good)"
    by (cases "poll_spotify env a") auto
  obtain c2 t2 where p2: "poll_chartmetric env a = (c2, t2)"
    by (cases "poll_chartmetric env a") auto
  obtain c3 t3 where p3: "poll_lastfm env a = (c3, t3)"
    by (cases "poll_lastfm env a") auto
  obtain c4 t4 where p4: "poll_genius db n = (c4, t4)"
    by (cases "poll_genius db n") auto
  show ?thesis
    using poll_weights(1) [of env a] poll_weights(2) [of env a] poll_weights(3) [of env a]
      poll_weights(4) [of db n]
    by (simp add: collect_classifications_def p1 p2 p3 p4)
qed

lemma engine_invariant:
  assumes w: "list_all (\<lambda>c. 0 < classification_weight c) (classifications profile)"
  shows "0 \<le> confidence_score (apply_ari_reasoning_engine enum profile)
     \<and> confidence_score (apply_ari_reasoning_engine enum profile) \<le> 1
     \<and> (confidence_score (apply_ari_reasoning_engine enum profile) = 0)
         = (classifications (apply_ari_reasoning_engine enum profile) = [])
     \<and> (classifications (apply_ari_reasoning_engine enum profile) \<noteq> []
          \<longrightarrow> 0 < confidence_score (apply_ari_reasoning_engine enum profile))"
proof (cases "classifications profile = []")
  case True
  then show ?thesis
    by (simp add: engine_classifications engine_confidence_empty)
next
  case False
  then show ?thesis
    using engine_confidence_pos [OF False w, of enum]
    by (simp add: engine_classifications)
qed

lemma confidence_weights:
  "list_all (\<lambda>c. 0 < cls_confidence c) cs \<Longrightarrow> list_all (\<lambda>c. 0 < classification_weight c) cs"
  by (auto simp: list_all_iff classification_weight_def source_weight_pos)

text \<open>
  C2. Every profile the reasoning engine produces from classifications with positive
  confidence has a confidence score in [0,1], which is 0 exactly when the list of
  classifications is empty, and positive otherwise. The profiles \<open>classify_artist\<close>
  builds are of this kind whatever the sources return: Spotify, Chartmetric and database
  classifications carry the fixed confidences 0.7, 0.8 and 0.6, and Last.fm tags are kept
  only above 0.4.
\<close>

theorem confidence_score_invariant:
  "(list_all (\<lambda>c. 0 < cls_confidence c) (classifications profile) \<longrightarrow>
      0 \<le> confidence_score (apply_ari_reasoning_engine enum profile)
      \<and> confidence_score (apply_ari_reasoning_engine enum profile) \<le> 1
      \<and> (confidence_score (apply_ari_reasoning_engine enum profile) = 0)
          = (classifications (apply_ari_reasoning_engine enum profile) = [])
      \<and> (classifications (apply_ari_reasoning_engine enum profile) \<noteq> []
           \<longrightarrow> 0 < confidence_score (apply_ari_reasoning_engine enum profile)))
   \<and> 0 \<le> confidence_score (fst (build_profile env enum db name primary_artist))
   \<and> confidence_score (fst (build_profile env enum db name primary_artist)) \<le> 1
   \<and> (confidence_score (fst (build_profile env enum db name primary_artist)) = 0)
       = (classifications (fst (build_profile env enum db name primary_artist)) = [])
   \<and> (classifications (fst (build_profile env enum db name primary_artist)) \<noteq> []
        \<longrightarrow> 0 < confidence_score (fst (build_profile env enum db name primary_artist)))"
proof (rule conjI)
  show "list_all (\<lambda>c. 0 < cls_confidence c) (classifications profile) \<longrightarrow>
      0 \<le> confidence_score (apply_ari_reasoning_engine enum profile)
      \<and> confidence_score (apply_ari_reasoning_engine enum profile) \<le> 1
      \<and> (confidence_score (apply_ari_reasoning_engine enum profile) = 0)
          = (classifications (apply_ari_reasoning_engine enum profile) = [])
      \<and> (classifications (apply_ari_reasoning_engine enum profile) \<noteq> []
           \<longrightarrow> 0 < confidence_score (apply_ari_reasoning_engine enum profile))"
    by (rule impI) (rule engine_invariant [OF confidence_weights])
next
  obtain cs calls where c: "collect_classifications env db primary_artist name = (cs, calls)"
    by (cases "collect_classifications env db primary_artist name") auto
  have w: "list_all (\<lambda>c. 0 < classification_weight c) cs"
    using collect_weights [of env db primary_artist name] c by simp
  have b: "fst (build_profile env enum db name primary_artist)
      = apply_ari_reasoning_engine enum ((new_profile name)\<lparr>classifications := cs\<rparr>)"
    by (simp add: build_profile_def c)
  show "0 \<le> confidence_score (fst (build_profile env enum db name primary_artist))
   \<and> confidence_score (fst (build_profile env enum db name primary_artist)) \<le> 1
   \<and> (confidence_score (fst (build_profile env enum db name primary_artist)) = 0)
       = (classifications (fst (build_profile env enum db name primary_artist)) = [])
   \<and> (classifications (fst (build_profile env enum db name primary_artist)) \<noteq> []
        \<longrightarrow> 0 < confidence_score (fst (build_profile env enum db name primary_artist)))"
    unfolding b by (rule engine_invariant) (simp add: w)
qed

theorem confidence_score_invariant_witness:
  "list_all (\<lambda>c. 0 < cls_confidence c) (classifications profile_sixty_percent)
   \<and> classifications (apply_ari_reasoning_engine remdups profile_sixty_percent) \<noteq> []
   \<and> 0 < confidence_score (apply_ari_reasoning_engine remdups profile_sixty_percent)
   \<and> classifications (fst (build_profile env_spotify_only remdups db_one_song ''Adele'' ''adele''))
       \<noteq> []
   \<and> 0 < confidence_score (fst (build_profile env_spotify_only remdups db_one_song ''Adele''
                                    ''adele''))
   \<and> primary_genre (fst (build_profile env_spotify_only remdups db_one_song ''Adele'' ''adele''))
       = Some ''pop''"
proof -
  note t = confidence_score_invariant
             [of profile_sixty_percent remdups env_spotify_only db_one_song "''Adele''" "''adele''"]
  have h: "list_all (\<lambda>c. 0 < cls_confidence c) (classifications profile_sixty_percent)"
    by code_simp
  have n1: "classifications (apply_ari_reasoning_engine remdups profile_sixty_percent) \<noteq> []"
    by (simp add: engine_classifications profile_sixty_percent_def)
  have p1: "0 < confidence_score (apply_ari_reasoning_engine remdups profile_sixty_percent)"
    using n1
    by (rule t [THEN conjunct1, THEN mp, OF h, THEN conjunct2, THEN conjunct2, THEN conjunct2,
                THEN mp])
  have n2: "classifications (fst (build_profile env_spotify_only remdups db_one_song ''Adele''
                                    ''adele'')) \<noteq> []"
    by code_simp
  have p2: "0 < confidence_score (fst (build_profile env_spotify_only remdups db_one_song
                                         ''Adele'' ''adele''))"
    using n2
    by (rule t [THEN conjunct2, THEN conjunct2, THEN conjunct2, THEN conjunct2, THEN mp])
  have g: "primary_genre (fst (build_profile env_spotify_only remdups db_one_song ''Adele''
                                 ''adele'')) = Some ''pop''"
    by code_simp
  show ?thesis
    by (rule conjI [OF h], rule conjI [OF n1], rule conjI [OF p1], rule conjI [OF n2],
        rule conjI [OF p2 g])
qed

text \<open>
  C4. The code at an input where the second-place total is exactly 60 percent of the
  winner's: rock has 0.25 and pop 0.15, the comparison is strict, and no crossover
  indicator is emitted.
\<close>

theorem crossover_at_exactly_sixty_percent:
  "sorted_desc (genre_votes (classifications profile_sixty_percent))
     = [(''rock'', 1 / 4), (''pop'', 3 / 20)]
   \<and> (3 / 20 :: real) = (1 / 4) * 0.6
   \<and> detect_crossover_indicators profile_sixty_percent = []
   \<and> crossover_indicators (apply_ari_reasoning_engine remdups profile_sixty_percent) = []"
  by code_simp

text \<open>
  C1. The code at an input where the artist's only song carries two genre rows with
  confidence above 0.8: the row count (2) differs from the song count (1), no existing
  profile is returned, and \<open>classify_artist\<close> calls every source. With a single such row
  the persisted profile is returned and no source is called.
\<close>

theorem existing_classification_counts_rows:
  "all_entries_classified db_two_rows ''Adele''
   \<and> get_existing_classification db_two_rows ''Adele'' None = None
   \<and> snd (snd (classify_artist env_no_data remdups db_two_rows Map.empty ''Adele''))
       = [''spotify'', ''chartmetric'', ''lastfm'', ''genius'']
   \<and> all_entries_classified db_one_row ''Adele''
   \<and> fst (classify_artist env_no_data remdups db_one_row Map.empty ''Adele'')
       = (new_profile ''Adele'')\<lparr>primary_genre := Some ''pop'', confidence_score := 0.9\<rparr>
   \<and> snd (snd (classify_artist env_no_data remdups db_one_row Map.empty ''Adele'')) = []"
  by code_simp

section \<open>Properties of the producer enrichment\<close>

lemma set_enumeration_remdups: "set_enumeration remdups"
  by (simp add: set_enumeration_def)

lemma set_enumeration_rev_remdups: "set_enumeration (rev \<circ> remdups)"
  by (simp add: set_enumeration_def)

text \<open>
  C6 as stated fails: the era refinement builds the subgenre list with \<open>list(set(...))\<close>,
  so its order is the iteration order of a set of strings. Two admissible iteration orders
  give two different suggestion lists for \<open>(['Max Martin'], 2002)\<close>, and the first is
  not the signature-table order.
\<close>

theorem producer_order_follows_set_order:
  "set_enumeration remdups \<and> set_enumeration (rev \<circ> remdups)
   \<and> map_option suggested_subgenres
        (analyze_producer_contribution remdups [''Max Martin''] (Some 2002))
       = Some [''electropop'', ''teen-pop'', ''dance-pop'']
   \<and> map_option suggested_subgenres
        (analyze_producer_contribution (rev \<circ> remdups) [''Max Martin''] (Some 2002))
       = Some [''dance-pop'', ''teen-pop'', ''electropop'']"
proof -
  have a: "map_option suggested_subgenres
        (analyze_producer_contribution remdups [''Max Martin''] (Some 2002))
       = Some [''electropop'', ''teen-pop'', ''dance-pop'']"
    by code_simp
  have b: "map_option suggested_subgenres
        (analyze_producer_contribution (rev \<circ> remdups) [''Max Martin''] (Some 2002))
       = Some [''dance-pop'', ''teen-pop'', ''electropop'']"
    by code_simp
  show ?thesis
    by (rule conjI [OF set_enumeration_remdups], rule conjI [OF set_enumeration_rev_remdups],
        rule conjI [OF a b])
qed

lemma max_martin_2002:
  "get_producer_subgenres enum ''Max Martin'' (Some 2002)
     = Some \<lparr>sig_primary = ''pop'',
             subgenres = enum [''dance-pop'', ''teen-pop'', ''electropop'', ''teen-pop'',
                               ''dance-pop''],
             sig_confidence = 0.95\<rparr>"
  by code_simp

lemma max_martin_no_year:
  "get_producer_subgenres enum ''Max Martin'' None
     = Some \<lparr>sig_primary = ''pop'',
             subgenres = [''dance-pop'', ''teen-pop'', ''electropop''],
             sig_confidence = 0.95\<rparr>"
  by code_simp

lemma count_add_new:
  "x \<notin> fst ` set acc \<Longrightarrow> count_add x acc = acc @ [(x, 1)]"
  by (induction acc) auto

lemma fold_count_add_distinct:
  "distinct xs \<Longrightarrow> set xs \<inter> fst ` set acc = {} \<Longrightarrow>
   fold count_add xs acc = acc @ map (\<lambda>x. (x, 1)) xs"
proof (induction xs arbitrary: acc)
  case Nil
  show ?case by simp
next
  case (Cons x xs)
  have n: "x \<notin> fst ` set acc" using Cons.prems(2) by auto
  have d: "distinct xs" "x \<notin> set xs" using Cons.prems(1) by auto
  have dj: "set xs \<inter> fst ` set (acc @ [(x, 1)]) = {}"
    using Cons.prems(2) d(2) by auto
  show ?case
    using Cons.IH [OF d(1) dj] by (simp add: count_add_new [OF n])
qed

lemma counter_distinct: "distinct xs \<Longrightarrow> counter xs = map (\<lambda>x. (x, 1)) xs"
  using fold_count_add_distinct [of xs "[]"] by (simp add: counter_def)

lemma sorted_desc_equal_keys:
  "\<forall>x \<in> set xs. snd x = c \<Longrightarrow> sorted_desc xs = xs"
proof (induction xs)
  case Nil
  show ?case by (simp add: sorted_desc_def)
next
  case (Cons x xs)
  then have ih: "sorted_desc xs = xs" by simp
  have "sorted_desc (x # xs) = insert_desc x (sorted_desc xs)"
    by (simp add: sorted_desc_def)
  also have "\<dots> = insert_desc x xs" by (simp only: ih)
  also have "\<dots> = x # xs"
    using Cons.prems by (cases xs) auto
  finally show ?case .
qed

lemma most_common_distinct:
  "distinct xs \<Longrightarrow> map fst (most_common n (counter xs)) = take n xs"
proof -
  assume d: "distinct xs"
  have "sorted_desc (map (\<lambda>x. (x, 1 :: nat)) xs) = map (\<lambda>x. (x, 1)) xs"
    by (rule sorted_desc_equal_keys [of _ 1]) auto
  then show ?thesis
    by (simp add: most_common_def counter_distinct [OF d] take_map comp_def)
qed

lemma three_element_enumeration:
  assumes "set_enumeration enum"
  shows "distinct (enum [''dance-pop'', ''teen-pop'', ''electropop'', ''teen-pop'', ''dance-pop''])
    \<and> set (enum [''dance-pop'', ''teen-pop'', ''electropop'', ''teen-pop'', ''dance-pop''])
        = {''dance-pop'', ''teen-pop'', ''electropop''}
    \<and> length (enum [''dance-pop'', ''teen-pop'', ''electropop'', ''teen-pop'', ''dance-pop''])
        = 3"
proof -
  let ?L = "enum [''dance-pop'', ''teen-pop'', ''electropop'', ''teen-pop'', ''dance-pop'']"
  have d: "distinct ?L"
    and s: "set ?L = set [''dance-pop'', ''teen-pop'', ''electropop'', ''teen-pop'', ''dance-pop'']"
    using assms by (simp_all add: set_enumeration_def)
  have s': "set ?L = {''dance-pop'', ''teen-pop'', ''electropop''}"
    unfolding s by auto
  have "length ?L = card (set ?L)" using d by (simp add: distinct_card)
  also have "\<dots> = 3" unfolding s' by simp
  finally show ?thesis using d s' by simp
qed

lemma most_common_length: "length (most_common n counts) \<le> n"
  by (simp add: most_common_def)

lemma analyze_single:
  assumes g: "get_producer_subgenres enum p y = Some sg"
    and d: "distinct (subgenres sg)"
    and l: "length (subgenres sg) = 3"
  shows "analyze_producer_contribution enum [p] y
     = Some \<lparr>suggested_subgenres = subgenres sg,
             pc_confidence = min (sig_confidence sg) 1, num_producers = 1,
             pc_source = ''producer_specialization''\<rparr>"
proof -
  have ne: "subgenres sg \<noteq> []" using l by auto
  have "map fst (most_common 3 (counter (subgenres sg))) = take 3 (subgenres sg)"
    by (rule most_common_distinct [OF d])
  then have mc: "map fst (most_common 3 (counter (subgenres sg))) = subgenres sg"
    using l by simp
  have f: "fold (producer_step enum y) [p] ([], [], 0)
      = (subgenres sg, [sig_primary sg], sig_confidence sg)"
    by (simp add: producer_step_def g)
  show ?thesis
    unfolding analyze_producer_contribution_def f
    by (simp add: ne mc g)
qed

lemma analyze_max_martin_2002:
  assumes se: "set_enumeration enum"
  shows "analyze_producer_contribution enum [''Max Martin''] (Some 2002)
     = Some \<lparr>suggested_subgenres =
                enum [''dance-pop'', ''teen-pop'', ''electropop'', ''teen-pop'', ''dance-pop''],
             pc_confidence = 0.95, num_producers = 1,
             pc_source = ''producer_specialization''\<rparr>"
proof -
  let ?L = "enum [''dance-pop'', ''teen-pop'', ''electropop'', ''teen-pop'', ''dance-pop'']"
  let ?sg = "\<lparr>sig_primary = ''pop'', subgenres = ?L, sig_confidence = 0.95\<rparr>"
  note e = three_element_enumeration [OF se]
  have d: "distinct (subgenres ?sg)" using e by (simp only: signature.simps)
  have l: "length (subgenres ?sg) = 3" using e by (simp only: signature.simps)
  have "analyze_producer_contribution enum [''Max Martin''] (Some 2002)
      = Some \<lparr>suggested_subgenres = subgenres ?sg,
              pc_confidence = min (sig_confidence ?sg) 1, num_producers = 1,
              pc_source = ''producer_specialization''\<rparr>"
    using max_martin_2002 [of enum] d l by (rule analyze_single)
  then show ?thesis by (simp only: signature.simps) simp
qed

text \<open>
  C6, amended. For a fixed enumeration order of Python sets the function is a
  deterministic function of its arguments, and for \<open>(['Max Martin'], 2002)\<close> it returns
  the three subgenres dance-pop, teen-pop and electropop, each once, with confidence 0.95
  from one producer; their order is the order in which the set built by
  \<open>get_producer_subgenres\<close> enumerates them, not the signature-table order. Without a
  year no set is built and the result is the signature-table order. In every case the
  suggestions are the first three entries of the counts sorted by falling frequency,
  equal counts in order of first occurrence, so at most 3 are kept.
\<close>

theorem producer_suggestions_up_to_set_order:
  "(set_enumeration enum \<longrightarrow>
      (\<exists>r. analyze_producer_contribution enum [''Max Martin''] (Some 2002) = Some r
           \<and> suggested_subgenres r
               = enum [''dance-pop'', ''teen-pop'', ''electropop'', ''teen-pop'', ''dance-pop'']
           \<and> distinct (suggested_subgenres r)
           \<and> set (suggested_subgenres r) = {''dance-pop'', ''teen-pop'', ''electropop''}
           \<and> length (suggested_subgenres r) = 3
           \<and> pc_confidence r = 0.95 \<and> num_producers r = 1))
   \<and> map_option suggested_subgenres
        (analyze_producer_contribution enum [''Max Martin''] None)
       = Some [''dance-pop'', ''teen-pop'', ''electropop'']
   \<and> (\<forall>r. analyze_producer_contribution enum producers year = Some r
          \<longrightarrow> length (suggested_subgenres r) \<le> 3)"
proof (intro conjI impI allI)
  assume se: "set_enumeration enum"
  show "\<exists>r. analyze_producer_contribution enum [''Max Martin''] (Some 2002) = Some r
           \<and> suggested_subgenres r
               = enum [''dance-pop'', ''teen-pop'', ''electropop'', ''teen-pop'', ''dance-pop'']
           \<and> distinct (suggested_subgenres r)
           \<and> set (suggested_subgenres r) = {''dance-pop'', ''teen-pop'', ''electropop''}
           \<and> length (suggested_subgenres r) = 3
           \<and> pc_confidence r = 0.95 \<and> num_producers r = 1"
  proof (rule exI, intro conjI)
    show "analyze_producer_contribution enum [''Max Martin''] (Some 2002)
      = Some \<lparr>suggested_subgenres =
                enum [''dance-pop'', ''teen-pop'', ''electropop'', ''teen-pop'', ''dance-pop''],
             pc_confidence = 0.95, num_producers = 1,
             pc_source = ''producer_specialization''\<rparr>"
      by (rule analyze_max_martin_2002 [OF se])
  qed (simp_all only: producer_contribution.simps three_element_enumeration [OF se])
next
  let ?sg = "\<lparr>sig_primary = ''pop'', subgenres = [''dance-pop'', ''teen-pop'', ''electropop''],
              sig_confidence = 0.95\<rparr>"
  have d: "distinct (subgenres ?sg)" by simp
  have l: "length (subgenres ?sg) = 3" by simp
  have "analyze_producer_contribution enum [''Max Martin''] None
      = Some \<lparr>suggested_subgenres = subgenres ?sg,
              pc_confidence = min (sig_confidence ?sg) 1, num_producers = 1,
              pc_source = ''producer_specialization''\<rparr>"
    using max_martin_no_year [of enum] d l by (rule analyze_single)
  then show "map_option suggested_subgenres
        (analyze_producer_contribution enum [''Max Martin''] None)
       = Some [''dance-pop'', ''teen-pop'', ''electropop'']"
    by (simp only: signature.simps producer_contribution.simps option.map)
next
  fix r
  assume a: "analyze_producer_contribution enum producers year = Some r"
  obtain sgs prims tc where f:
    "fold (producer_step enum year) producers ([], [], 0) = (sgs, prims, tc)"
    by (cases "fold (producer_step enum year) producers ([], [], 0)") auto
  have "suggested_subgenres r = map fst (most_common 3 (counter sgs))"
    using a by (auto simp: analyze_producer_contribution_def f split: if_splits)
  then show "length (suggested_subgenres r) \<le> 3"
    using most_common_length [of 3 "counter sgs"] by simp
qed

theorem producer_suggestions_up_to_set_order_witness:
  "set_enumeration remdups
   \<and> (\<exists>r. analyze_producer_contribution remdups [''Max Martin''] (Some 2002) = Some r
           \<and> suggested_subgenres r
               = remdups [''dance-pop'', ''teen-pop'', ''electropop'', ''teen-pop'', ''dance-pop'']
           \<and> distinct (suggested_subgenres r)
           \<and> set (suggested_subgenres r) = {''dance-pop'', ''teen-pop'', ''electropop''}
           \<and> length (suggested_subgenres r) = 3
           \<and> pc_confidence r = 0.95 \<and> num_producers r = 1)
   \<and> analyze_producer_contribution remdups [''Max Martin'', ''Rami''] (Some 2002)
       = Some \<lparr>suggested_subgenres = [''electropop'', ''teen-pop'', ''dance-pop''],
               pc_confidence = 37 / 40, num_producers = 2,
               pc_source = ''producer_specialization''\<rparr>
   \<and> length [''electropop'', ''teen-pop'', ''dance-pop''] \<le> 3"
proof -
  note t = producer_suggestions_up_to_set_order
             [of remdups "[''Max Martin'', ''Rami'']" "Some 2002"]
  have a: "\<exists>r. analyze_producer_contribution remdups [''Max Martin''] (Some 2002) = Some r
           \<and> suggested_subgenres r
               = remdups [''dance-pop'', ''teen-pop'', ''electropop'', ''teen-pop'', ''dance-pop'']
           \<and> distinct (suggested_subgenres r)
           \<and> set (suggested_subgenres r) = {''dance-pop'', ''teen-pop'', ''electropop''}
           \<and> length (suggested_subgenres r) = 3
           \<and> pc_confidence r = 0.95 \<and> num_producers r = 1"
    using set_enumeration_remdups by (rule t [THEN conjunct1, THEN mp])
  have e: "analyze_producer_contribution remdups [''Max Martin'', ''Rami''] (Some 2002)
       = Some \<lparr>suggested_subgenres = [''electropop'', ''teen-pop'', ''dance-pop''],
               pc_confidence = 37 / 40, num_producers = 2,
               pc_source = ''producer_specialization''\<rparr>"
    by code_simp
  have "length (suggested_subgenres
          \<lparr>suggested_subgenres = [''electropop'', ''teen-pop'', ''dance-pop''],
           pc_confidence = 37 / 40, num_producers = 2,
           pc_source = ''producer_specialization''\<rparr>) \<le> 3"
    using e by (rule t [THEN conjunct2, THEN conjunct2, THEN spec, THEN mp])
  then have l: "length [''electropop'', ''teen-pop'', ''dance-pop''] \<le> 3" by simp
  show ?thesis
    by (rule conjI [OF set_enumeration_remdups], rule conjI [OF a], rule conjI [OF e l])
qed

end
